theory Spec2Isabelle
  imports Complex_Main
begin

section \<open>JavaScript values used by the servers\<close>

text \<open>
  The request bodies carry integers (\<open>birthYear\<close>, \<open>birthMonth\<close>, \<open>birthDay\<close>, sent by the
  front end through \<open>parseInt\<close>), strings, and one floating-point number
  (\<open>bettingAmount\<close>, sent through \<open>parseFloat\<close>). A field that is absent (\<open>undefined\<close>) or
  \<open>null\<close> is \<open>None\<close>. A JavaScript number is a finite value, one of the two infinities
  (\<open>JSON.parse\<close> reads \<open>1e999\<close> as \<open>Infinity\<close>) or \<open>NaN\<close>; every finite double is a
  rational, and the servers only compare amounts, so a finite amount is its rational value.
\<close>

datatype jsnumber = Finite rat | PosInfinity | NegInfinity | NaN

text \<open>\<open>!x\<close> on an integer field: absent, \<open>null\<close> and \<open>0\<close> are falsy.\<close>

fun falsy_int :: "int option \<Rightarrow> bool" where
  "falsy_int None = True"
| "falsy_int (Some n) = (n = 0)"

text \<open>\<open>!x\<close> on a string field: absent, \<open>null\<close> and the empty string are falsy.\<close>

fun falsy_string :: "string option \<Rightarrow> bool" where
  "falsy_string None = True"
| "falsy_string (Some s) = (s = [])"

text \<open>\<open>!x\<close> on a number: absent, \<open>null\<close>, \<open>0\<close> (and \<open>-0\<close>) and \<open>NaN\<close> are falsy.\<close>

fun falsy_number :: "jsnumber option \<Rightarrow> bool" where
  "falsy_number None = True"
| "falsy_number (Some (Finite q)) = (q = 0)"
| "falsy_number (Some NaN) = True"
| "falsy_number (Some PosInfinity) = False"
| "falsy_number (Some NegInfinity) = False"

text \<open>\<open>x <= 0\<close> on a number; every comparison with \<open>NaN\<close> is false.\<close>

fun js_le_zero :: "jsnumber \<Rightarrow> bool" where
  "js_le_zero (Finite q) = (q \<le> 0)"
| "js_le_zero NegInfinity = True"
| "js_le_zero PosInfinity = False"
| "js_le_zero NaN = False"

text \<open>\<open>x > m\<close> for an integer \<open>m\<close>.\<close>

fun js_gt_int :: "jsnumber \<Rightarrow> int \<Rightarrow> bool" where
  "js_gt_int (Finite q) m = (of_int m < q)"
| "js_gt_int PosInfinity m = True"
| "js_gt_int NegInfinity m = False"
| "js_gt_int NaN m = False"

subsection \<open>Numbers in template literals\<close>

text \<open>
  \<open>`${n}`\<close> for an integer \<open>n\<close> is its decimal numeral, with a leading \<open>-\<close> when negative.
  That is what JavaScript writes for integers of magnitude below \<open>10^21\<close>, which covers
  dates and \<open>Date.now()\<close>; from \<open>10^21\<close> on JavaScript writes an exponent form (\<open>1e+21\<close>),
  which this definition does not follow.
\<close>

definition digit_char :: "nat \<Rightarrow> char" where
  "digit_char d = ''0123456789'' ! d"

function digits :: "nat \<Rightarrow> string" where
  "digits n = (if n < 10 then [digit_char n] else digits (n div 10) @ [digit_char (n mod 10)])"
  by pat_completeness auto
termination
  by (relation "measure id") auto

declare digits.simps [simp del]

definition toString_int :: "int \<Rightarrow> string" where
  "toString_int i = (if i < 0 then CHR ''-'' # digits (nat (- i)) else digits (nat i))"

subsection \<open>Dates\<close>

text \<open>
  \<open>new Date(year, monthIndex, day)\<close> follows ECMAScript's \<open>MakeDay\<close>: a two-digit year
  \<open>0..99\<close> means \<open>1900 + year\<close>, a month index outside \<open>0..11\<close> carries into the year, and the
  day of the month is added to the first of the month, so that an overlong day rolls over.
  The value is the number of milliseconds since the epoch; beyond \<open>8.64e15\<close> the date is
  invalid (\<open>None\<close>, a \<open>NaN\<close> time value). Local time is taken with a fixed offset from UTC,
  which cancels in the difference of two dates. Where the offset of the zone differs
  between the two dates (daylight saving time, a change of the zone's offset), the
  difference that the code computes is shifted by that much, which this definition does
  not follow.
\<close>

definition DayFromYear :: "int \<Rightarrow> int" where
  "DayFromYear y =
     365 * (y - 1970) + (y - 1969) div 4 - (y - 1901) div 100 + (y - 1601) div 400"

definition InLeapYear :: "int \<Rightarrow> bool" where
  "InLeapYear y = (y mod 4 = 0 \<and> (y mod 100 \<noteq> 0 \<or> y mod 400 = 0))"

definition month_start :: "int \<Rightarrow> bool \<Rightarrow> int" where
  "month_start mn leap =
     (let l = (if leap then 1 else 0) in
      if mn = 0 then 0 else if mn = 1 then 31 else if mn = 2 then 59 + l
      else if mn = 3 then 90 + l else if mn = 4 then 120 + l else if mn = 5 then 151 + l
      else if mn = 6 then 181 + l else if mn = 7 then 212 + l else if mn = 8 then 243 + l
      else if mn = 9 then 273 + l else if mn = 10 then 304 + l else 334 + l)"

definition MakeDay :: "int \<Rightarrow> int \<Rightarrow> int \<Rightarrow> int" where
  "MakeDay year month date =
     (let ym = year + month div 12; mn = month mod 12
      in DayFromYear ym + month_start mn (InLeapYear ym) + date - 1)"

definition msPerDay :: int where
  "msPerDay = 24 * 60 * 60 * 1000"

definition new_Date :: "int \<Rightarrow> int \<Rightarrow> int \<Rightarrow> int option" where
  "new_Date year monthIndex day =
     (let yr = (if 0 \<le> year \<and> year \<le> 99 then 1900 + year else year);
          t = MakeDay yr monthIndex day * msPerDay
      in if \<bar>t\<bar> \<le> 8640000000000000 then Some t else None)"

section \<open>Age\<close>

text \<open>\<open>calculateAge\<close> of \<open>simple-gap-server.js\<close> (and of \<open>compact-integration.js\<close>).\<close>

definition calculateAge :: "int \<Rightarrow> int \<Rightarrow> int \<Rightarrow> int \<Rightarrow> int \<Rightarrow> int \<Rightarrow> int" where
  "calculateAge birthYear birthMonth birthDay currentYear currentMonth currentDay =
     (let age = currentYear - birthYear
      in if currentMonth < birthMonth \<or> (currentMonth = birthMonth \<and> currentDay < birthDay)
         then age - 1 else age)"

text \<open>
  The age computed inside \<open>generateZKProof\<close> of \<open>src/gap-server.js\<close>:
  \<open>Math.floor((currentDate - birthDate) / (365.25 * 24 * 60 * 60 * 1000))\<close>. Both dates are
  integers of milliseconds and the divisor is the integer \<open>31557600000\<close>, so the floor of the
  floating-point quotient is the integer quotient; an invalid date gives \<open>NaN\<close> (\<open>None\<close>).
\<close>

definition age_gap :: "int \<Rightarrow> int \<Rightarrow> int \<Rightarrow> int \<Rightarrow> int \<Rightarrow> int \<Rightarrow> int option" where
  "age_gap birth_year birth_month birth_day current_year current_month current_day =
     (case (new_Date current_year (current_month - 1) current_day,
            new_Date birth_year (birth_month - 1) birth_day) of
        (Some currentDate, Some birthDate) \<Rightarrow> Some ((currentDate - birthDate) div 31557600000)
      | _ \<Rightarrow> None)"

text \<open>\<open>age >= input.min_age ? '1' : '0'\<close>; a comparison with \<open>NaN\<close> is false.\<close>

definition isEligible_gap :: "int option \<Rightarrow> int \<Rightarrow> string" where
  "isEligible_gap age min_age =
     (case age of Some a \<Rightarrow> (if a \<ge> min_age then ''1'' else ''0'') | None \<Rightarrow> ''0'')"

section \<open>Hashing and JSON\<close>

text \<open>
  \<open>createHash('sha256')\<close> belongs to Node's \<open>crypto\<close> module, not to the repository: the
  digest is a parameter \<open>H\<close>, from the hashed string to the bytes of the digest (each byte
  read modulo 256). \<open>.digest('hex')\<close> writes every byte as two lower-case hexadecimal digits,
  and \<open>.substring(0, 16)\<close> keeps the first sixteen characters.
\<close>

type_synonym digest = "string \<Rightarrow> nat list"

definition hex_char :: "nat \<Rightarrow> char" where
  "hex_char d = ''0123456789abcdef'' ! d"

definition hex_byte :: "nat \<Rightarrow> string" where
  "hex_byte b = [hex_char (b div 16 mod 16), hex_char (b mod 16)]"

definition sha256_hex :: "digest \<Rightarrow> string \<Rightarrow> string" where
  "sha256_hex H s = concat (map hex_byte (H s))"

definition hash16 :: "digest \<Rightarrow> string \<Rightarrow> string" where
  "hash16 H s = take 16 (sha256_hex H s)"

text \<open>
  \<open>JSON.stringify\<close> on the proof objects. Every string in them is a fixed identifier, a
  public signal or a hexadecimal digest, none of which needs an escape, so a string is
  written between two double quotes.
\<close>

definition json_str :: "string \<Rightarrow> string" where
  "json_str s = CHR 0x22 # s @ [CHR 0x22]"

fun commas :: "string list \<Rightarrow> string" where
  "commas [] = []"
| "commas [x] = x"
| "commas (x # y # xs) = x @ '','' @ commas (y # xs)"

definition json_arr :: "string list \<Rightarrow> string" where
  "json_arr xs = ''['' @ commas xs @ '']''"

definition json_obj :: "(string \<times> string) list \<Rightarrow> string" where
  "json_obj kvs = ''{'' @ commas (map (\<lambda>(k, v). json_str k @ '':'' @ v) kvs) @ ''}''"

section \<open>Proof objects\<close>

text \<open>The inner \<open>proof\<close> object, the same constant in both servers.\<close>

record groth16 =
  pi_a :: "string list"
  pi_b :: "string list list"
  pi_c :: "string list"
  protocol :: string
  curve :: string

definition groth16_stub :: groth16 where
  "groth16_stub =
     \<lparr>pi_a = [''0x1'', ''0x2'', ''0x1''],
      pi_b = [ [''0x1'', ''0x2''], [''0x3'', ''0x4''], [''0x1'', ''0x1''] ],
      pi_c = [''0x1'', ''0x2'', ''0x1''],
      protocol = ''groth16'',
      curve = ''bn128''\<rparr>"

text \<open>
  What \<open>generateZKProof\<close> returns: \<open>{proof, publicSignals, proofHash}\<close> in
  \<open>simple-gap-server.js\<close>, \<open>{proof, publicSignals}\<close> in \<open>src/gap-server.js\<close> (no \<open>proofHash\<close>
  property: \<open>None\<close>).
\<close>

record zkproof =
  inner :: groth16
  publicSignals :: "string list"
  proofHash :: "string option"

definition stringify_groth16 :: "groth16 \<Rightarrow> string" where
  "stringify_groth16 g =
     json_obj [(''pi_a'', json_arr (map json_str (pi_a g))),
               (''pi_b'', json_arr (map (\<lambda>row. json_arr (map json_str row)) (pi_b g))),
               (''pi_c'', json_arr (map json_str (pi_c g))),
               (''protocol'', json_str (protocol g)),
               (''curve'', json_str (curve g))]"

definition JSON_stringify :: "zkproof \<Rightarrow> string" where
  "JSON_stringify p =
     json_obj ([(''proof'', stringify_groth16 (inner p)),
                (''publicSignals'', json_arr (map json_str (publicSignals p)))]
               @ (case proofHash p of None \<Rightarrow> [] | Some h \<Rightarrow> [(''proofHash'', json_str h)]))"

section \<open>simple-gap-server.js: helper methods\<close>

definition generateIdentityCommitment :: "digest \<Rightarrow> int \<Rightarrow> int \<Rightarrow> int \<Rightarrow> string \<Rightarrow> string" where
  "generateIdentityCommitment H birthYear birthMonth birthDay identitySecret =
     (let input = toString_int birthYear @ ''-'' @ toString_int birthMonth @ ''-''
                  @ toString_int birthDay @ ''-'' @ identitySecret
      in hash16 H input)"

text \<open>The argument object of \<open>generateZKProof\<close>.\<close>

record zk_input =
  in_birthYear :: int
  in_birthMonth :: int
  in_birthDay :: int
  in_identitySecret :: string
  in_currentYear :: int
  in_currentMonth :: int
  in_currentDay :: int
  in_identityCommitment :: string
  in_isEligible :: bool

definition toString_bool :: "bool \<Rightarrow> string" where
  "toString_bool b = (if b then ''true'' else ''false'')"

text \<open>
  The hashed template literal \<open>`${input.identityCommitment}-${input.isEligible}-${Date.now()}`\<close>;
  \<open>now\<close> is the value of \<open>Date.now()\<close>.
\<close>

definition proofHash_input :: "zk_input \<Rightarrow> int \<Rightarrow> string" where
  "proofHash_input input now =
     in_identityCommitment input @ ''-'' @ toString_bool (in_isEligible input) @ ''-''
     @ toString_int now"

definition generateZKProof :: "digest \<Rightarrow> zk_input \<Rightarrow> int \<Rightarrow> zkproof" where
  "generateZKProof H input now =
     (let proofHash = hash16 H (proofHash_input input now)
      in \<lparr>inner = groth16_stub,
          publicSignals = [if in_isEligible input then ''1'' else ''0'', proofHash],
          proofHash = Some proofHash\<rparr>)"

definition generateProofId :: "digest \<Rightarrow> zkproof \<Rightarrow> string" where
  "generateProofId H proof = hash16 H (JSON_stringify proof)"

subsection \<open>Jurisdiction rules\<close>

record policy =
  maxBet :: int
  minAge :: int
  restricted :: bool

text \<open>The own properties of the object literal \<open>rules\<close>, in the order written.\<close>

definition rules_table :: "(string \<times> policy) list" where
  "rules_table =
     [(''US'', \<lparr>maxBet = 10000, minAge = 21, restricted = False\<rparr>),
      (''UK'', \<lparr>maxBet = 50000, minAge = 18, restricted = False\<rparr>),
      (''EU'', \<lparr>maxBet = 25000, minAge = 18, restricted = False\<rparr>),
      (''default'', \<lparr>maxBet = 1000, minAge = 18, restricted = False\<rparr>)]"

text \<open>
  \<open>rules\<close> is an ordinary object, so \<open>rules[key]\<close> also finds the properties it inherits
  from \<open>Object.prototype\<close>. Each of them is a function or an object, hence truthy, and has
  neither a \<open>maxBet\<close> nor a \<open>restricted\<close> property.
\<close>

definition object_prototype_keys :: "string list" where
  "object_prototype_keys =
     [''constructor'', ''__defineGetter__'', ''__defineSetter__'', ''hasOwnProperty'',
      ''__lookupGetter__'', ''__lookupSetter__'', ''isPrototypeOf'',
      ''propertyIsEnumerable'', ''toString'', ''valueOf'', ''__proto__'',
      ''toLocaleString'']"

datatype rules = Entry policy | Inherited string

text \<open>
  \<open>rules[jurisdiction] || rules['default']\<close>. An absent jurisdiction is the key
  \<open>'undefined'\<close>, which is no property of \<open>rules\<close>.
\<close>

definition getJurisdictionRules :: "string option \<Rightarrow> rules" where
  "getJurisdictionRules jurisdiction =
     (case jurisdiction of
        None \<Rightarrow> Entry (the (map_of rules_table ''default''))
      | Some key \<Rightarrow>
          (case map_of rules_table key of
             Some p \<Rightarrow> Entry p
           | None \<Rightarrow>
               if key \<in> set object_prototype_keys then Inherited key
               else Entry (the (map_of rules_table ''default''))))"

text \<open>\<open>rules.maxBet\<close> (\<open>None\<close> is \<open>undefined\<close>) and the truthiness of \<open>rules.restricted\<close>.\<close>

fun rules_maxBet :: "rules \<Rightarrow> int option" where
  "rules_maxBet (Entry p) = Some (maxBet p)"
| "rules_maxBet (Inherited k) = None"

fun rules_restricted :: "rules \<Rightarrow> bool" where
  "rules_restricted (Entry p) = restricted p"
| "rules_restricted (Inherited k) = False"

text \<open>
  The reasons are string literals in the source:
  \<^item> \<open>ProofExpired\<close>: \<open>'Age verification proof has expired'\<close>;
  \<^item> \<open>PredicateNotMet\<close>: \<open>'Age verification failed - must be 18 or older'\<close>;
  \<^item> \<open>InvalidAmount\<close>: \<open>'Invalid betting amount'\<close>;
  \<^item> \<open>AmountExceedsLimit m\<close>: \<open>'Betting amount exceeds maximum allowed ($m)'\<close>, with \<open>m\<close> the
    policy's \<open>maxBet\<close> in the locale's notation;
  \<^item> \<open>JurisdictionRestricted\<close>: \<open>'Sports betting restricted in this jurisdiction'\<close>;
  \<^item> \<open>Approved\<close>: \<open>'All eligibility requirements met'\<close>.
\<close>

datatype reason =
    ProofExpired
  | PredicateNotMet
  | InvalidAmount
  | AmountExceedsLimit int
  | JurisdictionRestricted
  | Approved

record eligibility =
  eligible :: bool
  reason :: reason

text \<open>
  \<open>bettingAmount > rules.maxBet\<close>, giving the limit when the comparison is true. It is
  false when \<open>rules.maxBet\<close> is \<open>undefined\<close>.
\<close>

fun over_maxBet :: "jsnumber option \<Rightarrow> rules \<Rightarrow> int option" where
  "over_maxBet (Some a) (Entry p) = (if js_gt_int a (maxBet p) then Some (maxBet p) else None)"
| "over_maxBet (Some a) (Inherited k) = None"
| "over_maxBet None r = None"

text \<open>\<open>bettingAmount <= 0\<close>, reached only for a truthy amount.\<close>

fun amount_le_zero :: "jsnumber option \<Rightarrow> bool" where
  "amount_le_zero (Some a) = js_le_zero a"
| "amount_le_zero None = False"

text \<open>\<open>checkBettingEligibility\<close> of \<open>simple-gap-server.js\<close>.\<close>

definition checkBettingEligibility :: "jsnumber option \<Rightarrow> rules \<Rightarrow> eligibility" where
  "checkBettingEligibility bettingAmount rules =
     (if falsy_number bettingAmount \<or> amount_le_zero bettingAmount
      then \<lparr>eligible = False, reason = InvalidAmount\<rparr>
      else case over_maxBet bettingAmount rules of
             Some m \<Rightarrow> \<lparr>eligible = False, reason = AmountExceedsLimit m\<rparr>
           | None \<Rightarrow>
               if rules_restricted rules
               then \<lparr>eligible = False, reason = JurisdictionRestricted\<rparr>
               else \<lparr>eligible = True, reason = Approved\<rparr>)"

section \<open>simple-gap-server.js: request handlers\<close>

text \<open>
  A request body after \<open>JSON.parse\<close> and destructuring. The body itself is \<open>None\<close> when
  \<open>JSON.parse\<close> or the destructuring throws (malformed text, or \<open>null\<close>): the handler's
  \<open>catch\<close> then answers 500. The two commitment and proof handlers read an
  \<open>identity_request\<close>; the verification and eligibility handlers read a \<open>lookup_request\<close>
  (verification uses its \<open>proofId\<close> only).
\<close>

record identity_request =
  birthYear :: "int option"
  birthMonth :: "int option"
  birthDay :: "int option"
  identitySecret :: "string option"
  identityCommitment :: "string option"

record lookup_request =
  proofId :: "string option"
  bettingAmount :: "jsnumber option"
  jurisdiction :: "string option"

text \<open>
  A cache entry. \<open>timestamp\<close> and \<open>expiresAt\<close> are stored as ISO strings of millisecond
  precision and read back with \<open>new Date\<close>, which gives the same instant: they are kept as
  milliseconds since the epoch.
\<close>

record cached_proof =
  cached :: zkproof
  isEligible :: bool
  age :: string
  timestamp :: int
  expiresAt :: int

type_synonym proofCache = "string \<rightharpoonup> cached_proof"

text \<open>
  The clock readings of one run of \<open>handleGenerateProof\<close>, in the order taken: the local
  calendar date of \<open>new Date()\<close>, \<open>Date.now()\<close> inside \<open>generateZKProof\<close>, \<open>new Date()\<close> for
  \<open>timestamp\<close> and \<open>Date.now()\<close> for \<open>expiresAt\<close>.
\<close>

record clock =
  currentYear :: int
  currentMonth :: int
  currentDay :: int
  proofNow :: int
  stampNow :: int
  expiryNow :: int

record proof_result =
  r_proofId :: string
  r_isEligible :: bool
  r_age :: string
  r_proofHash :: "string option"
  r_message :: string

record verify_result =
  v_isValid :: bool
  v_isEligible :: bool
  v_age :: string
  v_timestamp :: int
  v_expiresAt :: int
  v_message :: string

record betting_result =
  b_eligible :: bool
  b_canBet :: bool
  b_reason :: reason
  b_maxBet :: "int option"
  b_jurisdiction :: string

text \<open>
  The JSON bodies sent: \<open>{error}\<close>; \<open>{success: true, commitment, message}\<close>; the result of
  proof generation; the result of verification; \<open>{eligible: false, reason, canBet: false}\<close>;
  and the full eligibility answer (with \<open>ageVerified: true, proofValid: true\<close>).
\<close>

datatype body =
    Error string
  | CommitmentBody string string
  | ProofBody proof_result
  | VerifyBody verify_result
  | Refused reason
  | BettingBody betting_result

type_synonym response = "nat \<times> body"

definition handleGenerateCommitment :: "digest \<Rightarrow> identity_request option \<Rightarrow> response" where
  "handleGenerateCommitment H parsed =
     (case parsed of
        None \<Rightarrow> (500, Error ''Failed to generate commitment'')
      | Some req \<Rightarrow>
          (case (birthYear req, birthMonth req, birthDay req, identitySecret req) of
             (Some y, Some m, Some d, Some secret) \<Rightarrow>
               if falsy_int (Some y) \<or> falsy_int (Some m) \<or> falsy_int (Some d)
                  \<or> falsy_string (Some secret)
               then (400, Error ''Missing required fields: birthYear, birthMonth, birthDay, identitySecret'')
               else (200, CommitmentBody (generateIdentityCommitment H y m d secret)
                            ''Identity commitment generated successfully'')
           | _ \<Rightarrow> (400, Error ''Missing required fields: birthYear, birthMonth, birthDay, identitySecret'')))"

text \<open>Lines 146 to 153 of \<open>handleGenerateProof\<close>: the proof is cached under its id.\<close>

definition cacheProof ::
  "digest \<Rightarrow> proofCache \<Rightarrow> zkproof \<Rightarrow> bool \<Rightarrow> int \<Rightarrow> int \<Rightarrow> string \<times> proofCache" where
  "cacheProof H cache proof elig stamp now =
     (let proofId = generateProofId H proof
      in (proofId,
          cache(proofId \<mapsto>
            \<lparr>cached = proof,
             isEligible = elig,
             age = (if elig then ''18+'' else ''under_18''),
             timestamp = stamp,
             expiresAt = now + 24 * 60 * 60 * 1000\<rparr>)))"

definition handleGenerateProof ::
  "digest \<Rightarrow> clock \<Rightarrow> proofCache \<Rightarrow> identity_request option \<Rightarrow> response \<times> proofCache" where
  "handleGenerateProof H clk cache parsed =
     (case parsed of
        None \<Rightarrow> ((500, Error ''Failed to generate age verification proof''), cache)
      | Some req \<Rightarrow>
          (case (birthYear req, birthMonth req, birthDay req, identitySecret req,
                 identityCommitment req) of
             (Some y, Some m, Some d, Some secret, Some commitment) \<Rightarrow>
               if falsy_int (Some y) \<or> falsy_int (Some m) \<or> falsy_int (Some d)
                  \<or> falsy_string (Some secret) \<or> falsy_string (Some commitment)
               then ((400, Error ''Missing required fields for proof generation''), cache)
               else
                 let years = calculateAge y m d (currentYear clk) (currentMonth clk) (currentDay clk);
                     elig = (years \<ge> 18);
                     proof = generateZKProof H
                       \<lparr>in_birthYear = y, in_birthMonth = m, in_birthDay = d,
                        in_identitySecret = secret,
                        in_currentYear = currentYear clk, in_currentMonth = currentMonth clk,
                        in_currentDay = currentDay clk,
                        in_identityCommitment = commitment, in_isEligible = elig\<rparr>
                       (proofNow clk);
                     (proofId, cache') = cacheProof H cache proof elig (stampNow clk) (expiryNow clk)
                 in ((200, ProofBody
                       \<lparr>r_proofId = proofId,
                        r_isEligible = elig,
                        r_age = (if elig then ''18+'' else ''under_18''),
                        r_proofHash = proofHash proof,
                        r_message = (if elig
                          then ''Age verification successful - eligible for sports betting''
                          else ''Age verification failed - not eligible for sports betting'')\<rparr>),
                     cache')
           | _ \<Rightarrow> ((400, Error ''Missing required fields for proof generation''), cache)))"

text \<open>\<open>now\<close> is the value of \<open>new Date()\<close> in the handler, in milliseconds.\<close>

definition handleVerifyProof :: "proofCache \<Rightarrow> int \<Rightarrow> lookup_request option \<Rightarrow> response" where
  "handleVerifyProof cache now parsed =
     (case parsed of
        None \<Rightarrow> (500, Error ''Failed to verify proof'')
      | Some req \<Rightarrow>
          (case proofId req of
             None \<Rightarrow> (400, Error ''Missing proofId'')
           | Some pid \<Rightarrow>
               if falsy_string (Some pid) then (400, Error ''Missing proofId'')
               else
                 (case cache pid of
                    None \<Rightarrow> (404, Error ''Proof not found'')
                  | Some cachedProof \<Rightarrow>
                      (let isExpired = (now > expiresAt cachedProof)
                       in (200, VerifyBody
                            \<lparr>v_isValid = \<not> isExpired,
                             v_isEligible = isEligible cachedProof,
                             v_age = age cachedProof,
                             v_timestamp = timestamp cachedProof,
                             v_expiresAt = expiresAt cachedProof,
                             v_message =
                               (if \<not> isExpired \<and> isEligible cachedProof
                                then ''Valid proof - user is eligible for sports betting''
                                else if isExpired then ''Proof has expired''
                                else ''Invalid proof or user not eligible'')\<rparr>)))))"

text \<open>\<open>jurisdiction || 'default'\<close>.\<close>

fun jurisdiction_or_default :: "string option \<Rightarrow> string" where
  "jurisdiction_or_default None = ''default''"
| "jurisdiction_or_default (Some j) = (if j = [] then ''default'' else j)"

definition handleBettingEligibility :: "proofCache \<Rightarrow> int \<Rightarrow> lookup_request option \<Rightarrow> response" where
  "handleBettingEligibility cache now parsed =
     (case parsed of
        None \<Rightarrow> (500, Error ''Failed to check betting eligibility'')
      | Some req \<Rightarrow>
          (case proofId req of
             None \<Rightarrow> (400, Error ''Missing proofId'')
           | Some pid \<Rightarrow>
               if falsy_string (Some pid) then (400, Error ''Missing proofId'')
               else
                 (case cache pid of
                    None \<Rightarrow> (404, Error ''Age verification proof not found'')
                  | Some cachedProof \<Rightarrow>
                      (let isExpired = (now > expiresAt cachedProof)
                       in if isExpired then (400, Refused ProofExpired)
                          else if \<not> isEligible cachedProof then (200, Refused PredicateNotMet)
                          else
                            (let jurisdictionRules = getJurisdictionRules (jurisdiction req);
                                 eligibilityCheck =
                                   checkBettingEligibility (bettingAmount req) jurisdictionRules
                             in (200, BettingBody
                                  \<lparr>b_eligible = eligible eligibilityCheck,
                                   b_canBet = (isEligible cachedProof \<and> eligible eligibilityCheck),
                                   b_reason = reason eligibilityCheck,
                                   b_maxBet = rules_maxBet jurisdictionRules,
                                   b_jurisdiction = jurisdiction_or_default (jurisdiction req)\<rparr>))))))"

section \<open>src/gap-server.js\<close>

text \<open>
  The Express server has the same \<open>generateProofId\<close> and \<open>getJurisdictionRules\<close> as
  \<open>simple-gap-server.js\<close>, character for character; the definitions above stand for both.
  The functions below differ.
\<close>

record zk_input_gap =
  birth_year :: int
  birth_month :: int
  birth_day :: int
  identity_secret :: string
  current_year :: int
  current_month :: int
  current_day :: int
  identity_commitment :: string
  min_age :: int

text \<open>
  \<open>generateProofHash\<close>: the template literal
  \<open>`${input.identity_commitment}-${isEligible}-${input.current_year}${input.current_month}${input.current_day}`\<close>.
\<close>

definition generateProofHash :: "digest \<Rightarrow> zk_input_gap \<Rightarrow> string \<Rightarrow> string" where
  "generateProofHash H input eligible_signal =
     (let hashInput = identity_commitment input @ ''-'' @ eligible_signal @ ''-''
                      @ toString_int (current_year input) @ toString_int (current_month input)
                      @ toString_int (current_day input)
      in hash16 H hashInput)"

definition generateZKProof_gap :: "digest \<Rightarrow> zk_input_gap \<Rightarrow> zkproof" where
  "generateZKProof_gap H input =
     (let years = age_gap (birth_year input) (birth_month input) (birth_day input)
                    (current_year input) (current_month input) (current_day input);
          eligible_signal = isEligible_gap years (min_age input);
          hash = generateProofHash H input eligible_signal
      in \<lparr>inner = groth16_stub,
          publicSignals = [eligible_signal, hash],
          proofHash = None\<rparr>)"

text \<open>\<open>verifyZKProof(proof, publicSignals)\<close>: \<open>return true; // Simplified for demo\<close>.\<close>

definition verifyZKProof :: "zkproof \<Rightarrow> string list \<Rightarrow> bool" where
  "verifyZKProof proof signals = True"

text \<open>The cache entry of the Express server has no \<open>expiresAt\<close>.\<close>

record cached_proof_gap =
  g_cached :: zkproof
  g_publicSignals :: "string list"
  g_timestamp :: int
  g_isEligible :: bool

type_synonym proofCache_gap = "string \<rightharpoonup> cached_proof_gap"

record proof_result_gap =
  gr_proofId :: string
  gr_isEligible :: bool
  gr_proofHash :: string
  gr_message :: string

record verify_result_gap =
  gv_isValid :: bool
  gv_isEligible :: bool
  gv_timestamp :: int
  gv_message :: string

datatype body_gap =
    Error_gap string
  | ProofBody_gap proof_result_gap
  | VerifyBody_gap verify_result_gap

text \<open>
  \<open>express.json()\<close> hands a route the parsed body as an object; a body it cannot parse
  is answered by Express itself and never reaches the route.

  \<open>POST /api/generate-proof\<close>. \<open>today\<close> is the local calendar date of \<open>new Date()\<close> and
  \<open>stamp\<close> the later \<open>new Date()\<close> stored as \<open>timestamp\<close>. \<open>publicSignals[0]\<close> and
  \<open>publicSignals[1]\<close> are the two elements \<open>generateZKProof\<close> always returns.
\<close>

definition post_generate_proof ::
  "digest \<Rightarrow> int \<times> int \<times> int \<Rightarrow> int \<Rightarrow> proofCache_gap \<Rightarrow> identity_request
     \<Rightarrow> (nat \<times> body_gap) \<times> proofCache_gap" where
  "post_generate_proof H today stamp cache req =
     (case (birthYear req, birthMonth req, birthDay req, identitySecret req,
            identityCommitment req) of
        (Some y, Some m, Some d, Some secret, Some commitment) \<Rightarrow>
          if falsy_int (Some y) \<or> falsy_int (Some m) \<or> falsy_int (Some d)
             \<or> falsy_string (Some secret) \<or> falsy_string (Some commitment)
          then ((400, Error_gap ''Missing required fields for proof generation''), cache)
          else
            (case today of (cy, cm, cd) \<Rightarrow>
              (let input = \<lparr>birth_year = y, birth_month = m, birth_day = d,
                            identity_secret = secret,
                            current_year = cy, current_month = cm, current_day = cd,
                            identity_commitment = commitment, min_age = 18\<rparr>;
                   proof = generateZKProof_gap H input;
                   pid = generateProofId H proof;
                   signal0 = hd (publicSignals proof);
                   signal1 = hd (tl (publicSignals proof))
               in ((200, ProofBody_gap
                     \<lparr>gr_proofId = pid,
                      gr_isEligible = (signal0 = ''1''),
                      gr_proofHash = signal1,
                      gr_message = (if signal0 = ''1''
                        then ''Age verification successful - eligible for sports betting''
                        else ''Age verification failed - not eligible for sports betting'')\<rparr>),
                   cache(pid \<mapsto>
                     \<lparr>g_cached = proof, g_publicSignals = publicSignals proof,
                      g_timestamp = stamp, g_isEligible = (signal0 = ''1'')\<rparr>))))
      | _ \<Rightarrow> ((400, Error_gap ''Missing required fields for proof generation''), cache))"

text \<open>\<open>POST /api/verify-proof\<close>.\<close>

definition post_verify_proof :: "proofCache_gap \<Rightarrow> lookup_request \<Rightarrow> nat \<times> body_gap" where
  "post_verify_proof cache req =
     (case proofId req of
        None \<Rightarrow> (400, Error_gap ''Missing proofId'')
      | Some pid \<Rightarrow>
          if falsy_string (Some pid) then (400, Error_gap ''Missing proofId'')
          else
            (case cache pid of
               None \<Rightarrow> (404, Error_gap ''Proof not found'')
             | Some cachedProof \<Rightarrow>
                 (let isValid = verifyZKProof (g_cached cachedProof) (g_publicSignals cachedProof)
                  in (200, VerifyBody_gap
                       \<lparr>gv_isValid = isValid,
                        gv_isEligible = g_isEligible cachedProof,
                        gv_timestamp = g_timestamp cachedProof,
                        gv_message =
                          (if isValid \<and> g_isEligible cachedProof
                           then ''Valid proof - user is eligible for sports betting''
                           else ''Invalid proof or user not eligible'')\<rparr>))))"

text \<open>\<open>checkBettingEligibility\<close> of the Express server: no check of the amount itself.\<close>

definition checkBettingEligibility_gap :: "jsnumber option \<Rightarrow> rules \<Rightarrow> eligibility" where
  "checkBettingEligibility_gap amount rules =
     (case over_maxBet amount rules of
        Some m \<Rightarrow> \<lparr>eligible = False, reason = AmountExceedsLimit m\<rparr>
      | None \<Rightarrow>
          if rules_restricted rules
          then \<lparr>eligible = False, reason = JurisdictionRestricted\<rparr>
          else \<lparr>eligible = True, reason = Approved\<rparr>)"

section \<open>Definitions used to state the properties\<close>



text \<open>
  The specification's age in whole years: the naive year difference, less one unless the
  reference (month, day) is on or after the birth (month, day).
\<close>

definition age_in_whole_years :: "int \<Rightarrow> int \<Rightarrow> int \<Rightarrow> int \<Rightarrow> int \<Rightarrow> int \<Rightarrow> int" where
  "age_in_whole_years by bm bd ry rm rd =
     (ry - by) - (if rm > bm \<or> (rm = bm \<and> rd \<ge> bd) then 0 else 1)"

text \<open>
  The specification's \<open>verify(proof, signals, commitment)\<close> on this code: \<open>verifyZKProof\<close>
  declares two parameters, and JavaScript drops a third argument.
\<close>

definition verify :: "zkproof \<Rightarrow> string list \<Rightarrow> string \<Rightarrow> bool" where
  "verify proof signals commitment = verifyZKProof proof signals"

text \<open>The reason and the \<open>canBet\<close> flag that an eligibility answer reports, if any.\<close>

fun reported_reason :: "response \<Rightarrow> reason option" where
  "reported_reason (st, Refused r) = Some r"
| "reported_reason (st, BettingBody b) = Some (b_reason b)"
| "reported_reason (st, other) = None"

fun reported_canBet :: "response \<Rightarrow> bool option" where
  "reported_canBet (st, Refused r) = Some False"
| "reported_canBet (st, BettingBody b) = Some (b_canBet b)"
| "reported_canBet (st, other) = None"

text \<open>The \<open>isEligible\<close> flag that an answer to proof generation carries, if any.\<close>

fun issued_eligibility :: "response \<Rightarrow> bool option" where
  "issued_eligibility (st, ProofBody b) = Some (r_isEligible b)"
| "issued_eligibility (st, other) = None"

fun issued_eligibility_gap :: "nat \<times> body_gap \<Rightarrow> bool option" where
  "issued_eligibility_gap (st, ProofBody_gap b) = Some (gr_isEligible b)"
| "issued_eligibility_gap (st, other) = None"

text \<open>The test of the amount in \<open>checkBettingEligibility\<close> of \<open>simple-gap-server.js\<close>.\<close>

definition invalid_amount :: "jsnumber option \<Rightarrow> bool" where
  "invalid_amount amount = (falsy_number amount \<or> amount_le_zero amount)"

text \<open>
  The order of checks as the specification lists it: expiry, predicate, amount, restricted
  jurisdiction, limit, approval.
\<close>

definition decision_order_spec :: "bool \<Rightarrow> bool \<Rightarrow> jsnumber option \<Rightarrow> rules \<Rightarrow> reason" where
  "decision_order_spec expired predicate amount rules =
     (if expired then ProofExpired
      else if \<not> predicate then PredicateNotMet
      else if invalid_amount amount then InvalidAmount
      else if rules_restricted rules then JurisdictionRestricted
      else (case over_maxBet amount rules of
              Some m \<Rightarrow> AmountExceedsLimit m
            | None \<Rightarrow> Approved))"

text \<open>
  The order in which \<open>handleBettingEligibility\<close> and \<open>checkBettingEligibility\<close> of
  \<open>simple-gap-server.js\<close> take them: the limit comes before the restricted jurisdiction.
\<close>

definition decision_order :: "bool \<Rightarrow> bool \<Rightarrow> jsnumber option \<Rightarrow> rules \<Rightarrow> reason" where
  "decision_order expired predicate amount rules =
     (if expired then ProofExpired
      else if \<not> predicate then PredicateNotMet
      else if invalid_amount amount then InvalidAmount
      else (case over_maxBet amount rules of
              Some m \<Rightarrow> AmountExceedsLimit m
            | None \<Rightarrow> if rules_restricted rules then JurisdictionRestricted else Approved))"

text \<open>
  The specification's invalid amount: at most zero, or not finite.
\<close>

fun invalid_amount_spec :: "jsnumber \<Rightarrow> bool" where
  "invalid_amount_spec (Finite q) = (q \<le> 0)"
| "invalid_amount_spec PosInfinity = True"
| "invalid_amount_spec NegInfinity = True"
| "invalid_amount_spec NaN = True"

text \<open>
  The truncated digest does not send two different strings to one value. Sixteen
  hexadecimal digits cannot tell all strings apart, so this is a condition on two given
  strings, never on all of them.
\<close>

definition no_collision :: "digest \<Rightarrow> string \<Rightarrow> string \<Rightarrow> bool" where
  "no_collision H s1 s2 = (s1 \<noteq> s2 \<longrightarrow> hash16 H s1 \<noteq> hash16 H s2)"

text \<open>A small digest function, one byte of checksum, to run the definitions on.\<close>

definition checksum_digest :: digest where
  "checksum_digest s = [sum_list (map of_char s) mod 256]"

text \<open>Concrete inputs on which the theorems below are run.\<close>

definition example_clock :: clock where
  "example_clock =
     \<lparr>currentYear = 2024, currentMonth = 5, currentDay = 15,
      proofNow = 1000, stampNow = 1001, expiryNow = 1002\<rparr>"

definition example_request :: identity_request where
  "example_request =
     \<lparr>birthYear = Some 1990, birthMonth = Some 5, birthDay = Some 15,
      identitySecret = Some ''s'', identityCommitment = Some ''zz''\<rparr>"

definition example_credential :: cached_proof where
  "example_credential =
     \<lparr>cached = \<lparr>inner = groth16_stub, publicSignals = [''1'', ''5a''],
                 proofHash = Some ''5a''\<rparr>,
      isEligible = True, age = ''18+'', timestamp = 1001, expiresAt = 86401002\<rparr>"

text \<open>A request on the eighteenth birthday: born 2006-01-01, asked on 2024-01-01.\<close>

definition birthday_request :: identity_request where
  "birthday_request =
     \<lparr>birthYear = Some 2006, birthMonth = Some 1, birthDay = Some 1,
      identitySecret = Some ''s'', identityCommitment = Some ''c''\<rparr>"

definition birthday_clock :: clock where
  "birthday_clock =
     \<lparr>currentYear = 2024, currentMonth = 1, currentDay = 1,
      proofNow = 1000, stampNow = 1001, expiryNow = 1002\<rparr>"


definition example_input_gap :: zk_input_gap where
  "example_input_gap =
     \<lparr>birth_year = 1990, birth_month = 5, birth_day = 15, identity_secret = ''s'',
      current_year = 2024, current_month = 5, current_day = 15,
      identity_commitment = ''0123456789abcdef'', min_age = 18\<rparr>"

definition example_credential_gap :: cached_proof_gap where
  "example_credential_gap =
     \<lparr>g_cached = \<lparr>inner = groth16_stub, publicSignals = [''1'', ''5a''], proofHash = None\<rparr>,
      g_publicSignals = [''1'', ''5a''], g_timestamp = 1001, g_isEligible = True\<rparr>"

text \<open>
  The proof that \<open>handleGenerateProof\<close> builds for \<open>example_request\<close> at \<open>example_clock\<close>.
\<close>

definition example_issued :: zkproof where
  "example_issued =
     generateZKProof checksum_digest
       \<lparr>in_birthYear = 1990, in_birthMonth = 5, in_birthDay = 15, in_identitySecret = ''s'',
        in_currentYear = 2024, in_currentMonth = 5, in_currentDay = 15,
        in_identityCommitment = ''zz'', in_isEligible = True\<rparr>
       1000"

section \<open>Decimal numerals and digests\<close>








lemma hex_char_not_z: "d < 16 \<Longrightarrow> hex_char d \<noteq> CHR ''z''"
proof -
  assume "d < 16"
  then have "d = 0 \<or> d = 1 \<or> d = 2 \<or> d = 3 \<or> d = 4 \<or> d = 5 \<or> d = 6 \<or> d = 7
    \<or> d = 8 \<or> d = 9 \<or> d = 10 \<or> d = 11 \<or> d = 12 \<or> d = 13 \<or> d = 14 \<or> d = 15"
    by arith
  then show ?thesis
    by (elim disjE) (simp_all add: hex_char_def)
qed

lemma hex_byte_not_z: "CHR ''z'' \<notin> set (hex_byte b)"
  using hex_char_not_z [of "b div 16 mod 16"] hex_char_not_z [of "b mod 16"]
  by (auto simp add: hex_byte_def)

lemma sha256_hex_not_z: "CHR ''z'' \<notin> set (sha256_hex H s)"
  using hex_byte_not_z by (auto simp add: sha256_hex_def)

lemma hash16_not_zz: "hash16 H s \<noteq> ''zz''"
proof
  assume "hash16 H s = ''zz''"
  then have "CHR ''z'' \<in> set (take 16 (sha256_hex H s))" by (simp add: hash16_def)
  then have "CHR ''z'' \<in> set (sha256_hex H s)" by (rule in_set_takeD)
  with sha256_hex_not_z show False by blast
qed

section \<open>The handlers of simple-gap-server.js, case by case\<close>

lemma handleGenerateProof_present:
  assumes "y \<noteq> 0" "m \<noteq> 0" "d \<noteq> 0" "secret \<noteq> []" "commitment \<noteq> []"
  shows "handleGenerateProof H clk cache
           (Some \<lparr>birthYear = Some y, birthMonth = Some m, birthDay = Some d,
                  identitySecret = Some secret, identityCommitment = Some commitment\<rparr>)
         = (let elig = (calculateAge y m d (currentYear clk) (currentMonth clk) (currentDay clk) \<ge> 18);
                zk = generateZKProof H
                       \<lparr>in_birthYear = y, in_birthMonth = m, in_birthDay = d,
                        in_identitySecret = secret,
                        in_currentYear = currentYear clk, in_currentMonth = currentMonth clk,
                        in_currentDay = currentDay clk,
                        in_identityCommitment = commitment, in_isEligible = elig\<rparr>
                       (proofNow clk)
            in ((200, ProofBody
                  \<lparr>r_proofId = generateProofId H zk,
                   r_isEligible = elig,
                   r_age = (if elig then ''18+'' else ''under_18''),
                   r_proofHash = proofHash zk,
                   r_message = (if elig
                     then ''Age verification successful - eligible for sports betting''
                     else ''Age verification failed - not eligible for sports betting'')\<rparr>),
                cache(generateProofId H zk \<mapsto>
                  \<lparr>cached = zk, isEligible = elig,
                   age = (if elig then ''18+'' else ''under_18''),
                   timestamp = stampNow clk,
                   expiresAt = expiryNow clk + 86400000\<rparr>)))"
  using assms by (simp add: handleGenerateProof_def cacheProof_def Let_def)

lemma handleGenerateProof_missing:
  assumes "falsy_int (birthYear req) \<or> falsy_int (birthMonth req) \<or> falsy_int (birthDay req)
        \<or> falsy_string (identitySecret req) \<or> falsy_string (identityCommitment req)"
  shows "handleGenerateProof H clk cache (Some req)
        = ((400, Error ''Missing required fields for proof generation''), cache)"
  using assms by (auto simp add: handleGenerateProof_def split: option.splits)

lemma handleBettingEligibility_found:
  assumes "pid \<noteq> []" "cache pid = Some c"
  shows "handleBettingEligibility cache now
           (Some \<lparr>proofId = Some pid, bettingAmount = amt, jurisdiction = j\<rparr>)
         = (if now > expiresAt c then (400, Refused ProofExpired)
            else if \<not> isEligible c then (200, Refused PredicateNotMet)
            else (200, BettingBody
                   \<lparr>b_eligible = eligible (checkBettingEligibility amt (getJurisdictionRules j)),
                    b_canBet = eligible (checkBettingEligibility amt (getJurisdictionRules j)),
                    b_reason = reason (checkBettingEligibility amt (getJurisdictionRules j)),
                    b_maxBet = rules_maxBet (getJurisdictionRules j),
                    b_jurisdiction = jurisdiction_or_default j\<rparr>))"
  using assms by (simp add: handleBettingEligibility_def Let_def)

lemma handleVerifyProof_found:
  assumes "pid \<noteq> []" "cache pid = Some c"
  shows "handleVerifyProof cache now
           (Some \<lparr>proofId = Some pid, bettingAmount = amt, jurisdiction = j\<rparr>)
         = (200, VerifyBody
              \<lparr>v_isValid = \<not> now > expiresAt c,
               v_isEligible = isEligible c,
               v_age = age c,
               v_timestamp = timestamp c,
               v_expiresAt = expiresAt c,
               v_message =
                 (if \<not> now > expiresAt c \<and> isEligible c
                  then ''Valid proof - user is eligible for sports betting''
                  else if now > expiresAt c then ''Proof has expired''
                  else ''Invalid proof or user not eligible'')\<rparr>)"
  using assms by (simp add: handleVerifyProof_def Let_def)

lemma reason_checkBettingEligibility:
  "reason (checkBettingEligibility amt rules) = decision_order False True amt rules"
  by (simp add: checkBettingEligibility_def decision_order_def invalid_amount_def
      split: option.splits)

lemma eligible_checkBettingEligibility:
  "eligible (checkBettingEligibility amt rules)
     = (reason (checkBettingEligibility amt rules) = Approved)"
  by (simp add: checkBettingEligibility_def split: option.splits)

section \<open>Jurisdiction rules\<close>

lemma getJurisdictionRules_table:
  "getJurisdictionRules (Some ''US'') = Entry \<lparr>maxBet = 10000, minAge = 21, restricted = False\<rparr>"
  "getJurisdictionRules (Some ''UK'') = Entry \<lparr>maxBet = 50000, minAge = 18, restricted = False\<rparr>"
  "getJurisdictionRules (Some ''EU'') = Entry \<lparr>maxBet = 25000, minAge = 18, restricted = False\<rparr>"
  "getJurisdictionRules (Some ''default'') = Entry \<lparr>maxBet = 1000, minAge = 18, restricted = False\<rparr>"
  "getJurisdictionRules (Some ''XX'') = Entry \<lparr>maxBet = 1000, minAge = 18, restricted = False\<rparr>"
  "getJurisdictionRules None = Entry \<lparr>maxBet = 1000, minAge = 18, restricted = False\<rparr>"
  by (simp_all add: getJurisdictionRules_def rules_table_def object_prototype_keys_def)

lemma getJurisdictionRules_unrestricted: "\<not> rules_restricted (getJurisdictionRules j)"
  by (auto simp add: getJurisdictionRules_def rules_table_def split: option.splits if_splits)

text \<open>
  A code that is none of \<open>US\<close>, \<open>UK\<close>, \<open>EU\<close> and names no property of \<open>Object.prototype\<close>
  resolves to the default entry.
\<close>

lemma getJurisdictionRules_unknown:
  assumes "key \<notin> {''US'', ''UK'', ''EU''}" and "key \<notin> set object_prototype_keys"
  shows "getJurisdictionRules (Some key) = Entry \<lparr>maxBet = 1000, minAge = 18, restricted = False\<rparr>"
  using assms by (simp add: getJurisdictionRules_def rules_table_def)

text \<open>
  C9. The claim: every jurisdiction code other than \<open>US\<close>, \<open>UK\<close> and \<open>EU\<close> resolves to the
  default entry (limit 1000, not restricted). The lookup \<open>rules[jurisdiction]\<close> also
  reaches the properties inherited from \<open>Object.prototype\<close>: for the code \<open>constructor\<close> it
  returns the \<open>Object\<close> function, which is truthy, so that the \<open>||\<close> never reaches
  \<open>rules['default']\<close>. The value has no \<open>maxBet\<close>, and an eligible, unexpired credential is
  then approved for one million under no limit at all.
\<close>

theorem C9_constructor_is_not_default:
  "getJurisdictionRules (Some ''constructor'') = Inherited ''constructor''
   \<and> handleBettingEligibility [''abcd'' \<mapsto> example_credential] 2000
        (Some \<lparr>proofId = Some ''abcd'', bettingAmount = Some (Finite 1000000),
               jurisdiction = Some ''constructor''\<rparr>)
      = (200, BettingBody \<lparr>b_eligible = True, b_canBet = True, b_reason = Approved,
                           b_maxBet = None, b_jurisdiction = ''constructor''\<rparr>)"
proof
  show g: "getJurisdictionRules (Some ''constructor'') = Inherited ''constructor''"
    by (simp add: getJurisdictionRules_def rules_table_def object_prototype_keys_def)
  show "handleBettingEligibility [''abcd'' \<mapsto> example_credential] 2000
        (Some \<lparr>proofId = Some ''abcd'', bettingAmount = Some (Finite 1000000),
               jurisdiction = Some ''constructor''\<rparr>)
      = (200, BettingBody \<lparr>b_eligible = True, b_canBet = True, b_reason = Approved,
                           b_maxBet = None, b_jurisdiction = ''constructor''\<rparr>)"
    by (simp add: handleBettingEligibility_found [where c = example_credential] g
        checkBettingEligibility_def example_credential_def)
qed

section \<open>The birthday rule\<close>

text \<open>\<open>calculateAge\<close> is the birthday rule of the specification, for all dates.\<close>

lemma calculateAge_birthday_rule:
  "calculateAge by bm bd ry rm rd = age_in_whole_years by bm bd ry rm rd"
  by (auto simp add: calculateAge_def age_in_whole_years_def Let_def)

text \<open>
  C2. The claim: the predicate is \<open>age_in_whole_years \<ge> 18\<close> by the birthday rule, never a
  365.25-day approximation. \<open>calculateAge\<close> of \<open>simple-gap-server.js\<close> is that rule (lemma
  above), but \<open>generateZKProof\<close> of \<open>src/gap-server.js\<close> divides the elapsed milliseconds by
  365.25 days. For a birth on 2006-01-01 and the reference date 2024-01-01, the eighteenth
  birthday, the 6574 days between them are fewer than \<open>18 * 365.25 = 6574.5\<close>: the rule
  gives 18 and \<open>handleGenerateProof\<close> of \<open>simple-gap-server.js\<close> answers eligible; the
  Express server gives 17, the public signal \<open>'0'\<close>, and answers not eligible.
\<close>

theorem C2_gap_server_undercounts_on_18th_birthday:
  "age_in_whole_years 2006 1 1 2024 1 1 = 18
   \<and> calculateAge 2006 1 1 2024 1 1 = 18
   \<and> issued_eligibility
        (fst (handleGenerateProof H birthday_clock cache (Some birthday_request))) = Some True
   \<and> age_gap 2006 1 1 2024 1 1 = Some 17
   \<and> publicSignals (generateZKProof_gap H
        \<lparr>birth_year = 2006, birth_month = 1, birth_day = 1, identity_secret = ''s'',
         current_year = 2024, current_month = 1, current_day = 1,
         identity_commitment = ''c'', min_age = 18\<rparr>) ! 0 = ''0''
   \<and> issued_eligibility_gap
        (fst (post_generate_proof H (2024, 1, 1) stamp cache' birthday_request)) = Some False"
proof -
  have a: "age_gap 2006 1 1 2024 1 1 = Some 17"
    by (simp add: age_gap_def new_Date_def MakeDay_def DayFromYear_def month_start_def
        InLeapYear_def msPerDay_def)
  have b: "calculateAge 2006 1 1 2024 1 1 = 18"
    by (simp add: calculateAge_def)
  have c: "issued_eligibility
        (fst (handleGenerateProof H birthday_clock cache (Some birthday_request))) = Some True"
    by (simp add: birthday_request_def birthday_clock_def handleGenerateProof_present Let_def b)
  have d: "issued_eligibility_gap
        (fst (post_generate_proof H (2024, 1, 1) stamp cache' birthday_request)) = Some False"
    by (simp add: birthday_request_def post_generate_proof_def generateZKProof_gap_def Let_def a
        isEligible_gap_def)
  show ?thesis
    by (simp add: a b c d generateZKProof_gap_def isEligible_gap_def Let_def
        age_in_whole_years_def)
qed

section \<open>The order of the eligibility checks\<close>

text \<open>
  C4, as the code has it. For a credential found under a non-empty id, the reason that
  \<open>handleBettingEligibility\<close> reports is the first failing check in the order: expired,
  predicate false, invalid amount, amount over the limit, jurisdiction restricted,
  approved. \<open>checkBettingEligibility\<close> alone applies the last four in that order. An
  expired credential reports \<open>ProofExpired\<close> whatever the amount and the jurisdiction.
\<close>

theorem C4_checks_in_code_order:
  assumes "pid \<noteq> []" and "cache pid = Some c"
  shows "reported_reason (handleBettingEligibility cache now
           (Some \<lparr>proofId = Some pid, bettingAmount = amt, jurisdiction = j\<rparr>))
         = Some (decision_order (now > expiresAt c) (isEligible c) amt (getJurisdictionRules j))
       \<and> reason (checkBettingEligibility amt rules) = decision_order False True amt rules
       \<and> (now > expiresAt c \<longrightarrow>
            reported_reason (handleBettingEligibility cache now
              (Some \<lparr>proofId = Some pid, bettingAmount = amt, jurisdiction = j\<rparr>))
            = Some ProofExpired)"
  using assms
  by (simp add: handleBettingEligibility_found reason_checkBettingEligibility decision_order_def)

text \<open>
  The theorem at a credential that is expired and whose amount, 15000, is over the limit
  of its jurisdiction \<open>US\<close>: the answer is \<open>ProofExpired\<close>.
\<close>

theorem C4_checks_in_code_order_witness:
  "''abcd'' \<noteq> [] \<and> [''abcd'' \<mapsto> example_credential] ''abcd'' = Some example_credential
   \<and> 90000000 > expiresAt example_credential
   \<and> reported_reason (handleBettingEligibility [''abcd'' \<mapsto> example_credential] 90000000
         (Some \<lparr>proofId = Some ''abcd'', bettingAmount = Some (Finite 15000),
                jurisdiction = Some ''US''\<rparr>))
       = Some ProofExpired"
proof -
  have h1: "''abcd'' \<noteq> []" by simp
  have h2: "[''abcd'' \<mapsto> example_credential] ''abcd'' = Some example_credential" by simp
  have h3: "90000000 > expiresAt example_credential" by (simp add: example_credential_def)
  from C4_checks_in_code_order [where pid = "''abcd''" and c = example_credential
      and cache = "[''abcd'' \<mapsto> example_credential]" and now = 90000000
      and amt = "Some (Finite 15000)" and j = "Some ''US''", OF h1 h2] h3
  have "reported_reason (handleBettingEligibility [''abcd'' \<mapsto> example_credential] 90000000
         (Some \<lparr>proofId = Some ''abcd'', bettingAmount = Some (Finite 15000),
                jurisdiction = Some ''US''\<rparr>))
       = Some ProofExpired"
    by blast
  with h1 h2 h3 show ?thesis by blast
qed

text \<open>
  C4, as the claim words it, puts the restricted jurisdiction before the limit. Under a
  restricted policy with limit 1000, the amount 5000 is refused by the code for exceeding
  the limit, where the claimed order refuses it for the restricted jurisdiction.
\<close>

theorem C4_counterexample:
  "reason (checkBettingEligibility (Some (Finite 5000))
             (Entry \<lparr>maxBet = 1000, minAge = 18, restricted = True\<rparr>))
     = AmountExceedsLimit 1000
   \<and> decision_order_spec False True (Some (Finite 5000))
        (Entry \<lparr>maxBet = 1000, minAge = 18, restricted = True\<rparr>)
     = JurisdictionRestricted"
  by (simp add: checkBettingEligibility_def decision_order_spec_def invalid_amount_def)

text \<open>
  No entry of the policy table is restricted, so through \<open>handleBettingEligibility\<close> the
  two orders give the same reason: they differ only on \<open>checkBettingEligibility\<close> with a
  restricted policy.
\<close>

lemma handler_reason_in_spec_order:
  assumes "pid \<noteq> []" and "cache pid = Some c"
  shows "reported_reason (handleBettingEligibility cache now
           (Some \<lparr>proofId = Some pid, bettingAmount = amt, jurisdiction = j\<rparr>))
         = Some (decision_order_spec (now > expiresAt c) (isEligible c) amt (getJurisdictionRules j))"
  using assms getJurisdictionRules_unrestricted [of j]
  by (simp add: handleBettingEligibility_found reason_checkBettingEligibility decision_order_def
      decision_order_spec_def)

section \<open>Proof generation and the commitment\<close>

text \<open>
  C1, as the code has it. \<open>handleGenerateProof\<close> never recomputes the commitment from the
  attributes: it only tests that the five fields are truthy. When they are, whatever the
  supplied commitment is, it builds the proof from that commitment, the flag
  \<open>calculateAge \<ge> 18\<close> and the clock, answers 200 with the id of the proof and the flag,
  and caches under that id a credential with the same flag that expires 24 hours later.
  When a field is absent or falsy it answers 400, and when the body cannot be read it
  answers 500; in both cases the cache is unchanged.
\<close>

theorem C1_proof_issued_for_any_commitment:
  "(y \<noteq> 0 \<and> m \<noteq> 0 \<and> d \<noteq> 0 \<and> secret \<noteq> [] \<and> commitment \<noteq> [] \<longrightarrow>
      handleGenerateProof H clk cache
        (Some \<lparr>birthYear = Some y, birthMonth = Some m, birthDay = Some d,
               identitySecret = Some secret, identityCommitment = Some commitment\<rparr>)
      = (let elig = (calculateAge y m d (currentYear clk) (currentMonth clk) (currentDay clk) \<ge> 18);
             zk = generateZKProof H
                    \<lparr>in_birthYear = y, in_birthMonth = m, in_birthDay = d,
                     in_identitySecret = secret,
                     in_currentYear = currentYear clk, in_currentMonth = currentMonth clk,
                     in_currentDay = currentDay clk,
                     in_identityCommitment = commitment, in_isEligible = elig\<rparr>
                    (proofNow clk)
         in ((200, ProofBody
               \<lparr>r_proofId = generateProofId H zk,
                r_isEligible = elig,
                r_age = (if elig then ''18+'' else ''under_18''),
                r_proofHash = proofHash zk,
                r_message = (if elig
                  then ''Age verification successful - eligible for sports betting''
                  else ''Age verification failed - not eligible for sports betting'')\<rparr>),
             cache(generateProofId H zk \<mapsto>
               \<lparr>cached = zk, isEligible = elig,
                age = (if elig then ''18+'' else ''under_18''),
                timestamp = stampNow clk,
                expiresAt = expiryNow clk + 86400000\<rparr>))))
   \<and> (falsy_int (birthYear req) \<or> falsy_int (birthMonth req) \<or> falsy_int (birthDay req)
        \<or> falsy_string (identitySecret req) \<or> falsy_string (identityCommitment req) \<longrightarrow>
      handleGenerateProof H clk cache (Some req)
        = ((400, Error ''Missing required fields for proof generation''), cache))
   \<and> handleGenerateProof H clk cache None
        = ((500, Error ''Failed to generate age verification proof''), cache)"
proof (intro conjI impI)
  assume "y \<noteq> 0 \<and> m \<noteq> 0 \<and> d \<noteq> 0 \<and> secret \<noteq> [] \<and> commitment \<noteq> []"
  then show "handleGenerateProof H clk cache
        (Some \<lparr>birthYear = Some y, birthMonth = Some m, birthDay = Some d,
               identitySecret = Some secret, identityCommitment = Some commitment\<rparr>)
      = (let elig = (calculateAge y m d (currentYear clk) (currentMonth clk) (currentDay clk) \<ge> 18);
             zk = generateZKProof H
                    \<lparr>in_birthYear = y, in_birthMonth = m, in_birthDay = d,
                     in_identitySecret = secret,
                     in_currentYear = currentYear clk, in_currentMonth = currentMonth clk,
                     in_currentDay = currentDay clk,
                     in_identityCommitment = commitment, in_isEligible = elig\<rparr>
                    (proofNow clk)
         in ((200, ProofBody
               \<lparr>r_proofId = generateProofId H zk,
                r_isEligible = elig,
                r_age = (if elig then ''18+'' else ''under_18''),
                r_proofHash = proofHash zk,
                r_message = (if elig
                  then ''Age verification successful - eligible for sports betting''
                  else ''Age verification failed - not eligible for sports betting'')\<rparr>),
             cache(generateProofId H zk \<mapsto>
               \<lparr>cached = zk, isEligible = elig,
                age = (if elig then ''18+'' else ''under_18''),
                timestamp = stampNow clk,
                expiresAt = expiryNow clk + 86400000\<rparr>)))"
    using handleGenerateProof_present [of y m d secret commitment H clk cache] by blast
next
  assume "falsy_int (birthYear req) \<or> falsy_int (birthMonth req) \<or> falsy_int (birthDay req)
        \<or> falsy_string (identitySecret req) \<or> falsy_string (identityCommitment req)"
  then show "handleGenerateProof H clk cache (Some req)
        = ((400, Error ''Missing required fields for proof generation''), cache)"
    by (rule handleGenerateProof_missing)
next
  show "handleGenerateProof H clk cache None
        = ((500, Error ''Failed to generate age verification proof''), cache)"
    by (simp add: handleGenerateProof_def)
qed

text \<open>
  The theorem at the request of 1990-05-15 with the commitment \<open>zz\<close>, asked on 2024-05-15
  (the credential is cached under the id that is answered, eligible, and expires 24 hours
  after the last clock reading), and at the same request with an empty commitment.
\<close>

theorem C1_proof_issued_for_any_commitment_witness:
  "(1990::int) \<noteq> 0 \<and> (5::int) \<noteq> 0 \<and> (15::int) \<noteq> 0 \<and> ''s'' \<noteq> [] \<and> ''zz'' \<noteq> []
   \<and> handleGenerateProof checksum_digest example_clock Map.empty
        (Some \<lparr>birthYear = Some 1990, birthMonth = Some 5, birthDay = Some 15,
               identitySecret = Some ''s'', identityCommitment = Some ''zz''\<rparr>)
      = ((200, ProofBody
            \<lparr>r_proofId = generateProofId checksum_digest example_issued,
             r_isEligible = True, r_age = ''18+'', r_proofHash = proofHash example_issued,
             r_message = ''Age verification successful - eligible for sports betting''\<rparr>),
         [generateProofId checksum_digest example_issued \<mapsto>
            \<lparr>cached = example_issued, isEligible = True, age = ''18+'',
             timestamp = 1001, expiresAt = 86401002\<rparr>])
   \<and> falsy_string (identityCommitment (example_request\<lparr>identityCommitment := Some []\<rparr>))
   \<and> handleGenerateProof checksum_digest example_clock Map.empty
        (Some (example_request\<lparr>identityCommitment := Some []\<rparr>))
        = ((400, Error ''Missing required fields for proof generation''), Map.empty)"
proof -
  have h: "(1990::int) \<noteq> 0 \<and> (5::int) \<noteq> 0 \<and> (15::int) \<noteq> 0 \<and> ''s'' \<noteq> [] \<and> ''zz'' \<noteq> []"
    by simp
  have f: "falsy_string (identityCommitment (example_request\<lparr>identityCommitment := Some []\<rparr>))"
    by simp
  have age: "calculateAge 1990 5 15 2024 5 15 = 34"
    by (simp add: calculateAge_def)
  note t = C1_proof_issued_for_any_commitment [where y = 1990 and m = 5 and d = 15
      and secret = "''s''" and commitment = "''zz''" and H = checksum_digest
      and clk = example_clock and cache = Map.empty
      and req = "example_request\<lparr>identityCommitment := Some []\<rparr>"]
  from t h have "handleGenerateProof checksum_digest example_clock Map.empty
        (Some \<lparr>birthYear = Some 1990, birthMonth = Some 5, birthDay = Some 15,
               identitySecret = Some ''s'', identityCommitment = Some ''zz''\<rparr>)
      = (let elig = (calculateAge 1990 5 15 (currentYear example_clock)
                       (currentMonth example_clock) (currentDay example_clock) \<ge> 18);
             zk = generateZKProof checksum_digest
                    \<lparr>in_birthYear = 1990, in_birthMonth = 5, in_birthDay = 15,
                     in_identitySecret = ''s'',
                     in_currentYear = currentYear example_clock,
                     in_currentMonth = currentMonth example_clock,
                     in_currentDay = currentDay example_clock,
                     in_identityCommitment = ''zz'', in_isEligible = elig\<rparr>
                    (proofNow example_clock)
         in ((200, ProofBody
               \<lparr>r_proofId = generateProofId checksum_digest zk,
                r_isEligible = elig,
                r_age = (if elig then ''18+'' else ''under_18''),
                r_proofHash = proofHash zk,
                r_message = (if elig
                  then ''Age verification successful - eligible for sports betting''
                  else ''Age verification failed - not eligible for sports betting'')\<rparr>),
             Map.empty(generateProofId checksum_digest zk \<mapsto>
               \<lparr>cached = zk, isEligible = elig,
                age = (if elig then ''18+'' else ''under_18''),
                timestamp = stampNow example_clock,
                expiresAt = expiryNow example_clock + 86400000\<rparr>)))"
    by blast
  then have a: "handleGenerateProof checksum_digest example_clock Map.empty
        (Some \<lparr>birthYear = Some 1990, birthMonth = Some 5, birthDay = Some 15,
               identitySecret = Some ''s'', identityCommitment = Some ''zz''\<rparr>)
      = ((200, ProofBody
            \<lparr>r_proofId = generateProofId checksum_digest example_issued,
             r_isEligible = True, r_age = ''18+'', r_proofHash = proofHash example_issued,
             r_message = ''Age verification successful - eligible for sports betting''\<rparr>),
         [generateProofId checksum_digest example_issued \<mapsto>
            \<lparr>cached = example_issued, isEligible = True, age = ''18+'',
             timestamp = 1001, expiresAt = 86401002\<rparr>])"
    by (simp add: example_clock_def example_issued_def age Let_def)
  from t f have b: "handleGenerateProof checksum_digest example_clock Map.empty
        (Some (example_request\<lparr>identityCommitment := Some []\<rparr>))
        = ((400, Error ''Missing required fields for proof generation''), Map.empty)"
    by blast
  from h f a b show ?thesis by blast
qed

text \<open>
  C1, as the claim words it, fails: the commitment \<open>zz\<close> is no digest of anything (a digest
  is written in hexadecimal digits), so it differs from the commitment recomputed from the
  attributes under every digest function, and still the request is answered 200 and a
  credential is cached.
\<close>

theorem C1_counterexample:
  "\<forall>H. ''zz'' \<noteq> generateIdentityCommitment H 1990 5 15 ''s''
     \<and> identityCommitment example_request = Some ''zz''
     \<and> birthYear example_request = Some 1990 \<and> birthMonth example_request = Some 5
     \<and> birthDay example_request = Some 15 \<and> identitySecret example_request = Some ''s''
     \<and> fst (fst (handleGenerateProof H example_clock Map.empty (Some example_request))) = 200
     \<and> snd (handleGenerateProof H example_clock Map.empty (Some example_request)) \<noteq> Map.empty"
proof (intro allI conjI)
  fix H
  show "''zz'' \<noteq> generateIdentityCommitment H 1990 5 15 ''s''"
    using hash16_not_zz [of H] by (simp add: generateIdentityCommitment_def Let_def) metis
  show "fst (fst (handleGenerateProof H example_clock Map.empty (Some example_request))) = 200"
    by (simp add: example_request_def handleGenerateProof_present Let_def)
  show "snd (handleGenerateProof H example_clock Map.empty (Some example_request)) \<noteq> Map.empty"
    by (simp add: example_request_def handleGenerateProof_present Let_def)
qed (simp_all add: example_request_def)

section \<open>The commitment\<close>

lemma handleGenerateCommitment_present:
  assumes "y \<noteq> 0" "m \<noteq> 0" "d \<noteq> 0" "secret \<noteq> []"
  shows "handleGenerateCommitment H
           (Some \<lparr>birthYear = Some y, birthMonth = Some m, birthDay = Some d,
                  identitySecret = Some secret, identityCommitment = c\<rparr>)
         = (200, CommitmentBody (generateIdentityCommitment H y m d secret)
                   ''Identity commitment generated successfully'')"
  using assms by (simp add: handleGenerateCommitment_def)

lemma handleGenerateCommitment_missing:
  assumes "falsy_int (birthYear req) \<or> falsy_int (birthMonth req) \<or> falsy_int (birthDay req)
        \<or> falsy_string (identitySecret req)"
  shows "handleGenerateCommitment H (Some req)
        = (400, Error ''Missing required fields: birthYear, birthMonth, birthDay, identitySecret'')"
  using assms by (auto simp add: handleGenerateCommitment_def split: option.splits)

lemma toString_int_examples:
  "toString_int 3000 = ''3000''" "toString_int 13 = ''13''" "toString_int 32 = ''32''"
  "toString_int (- 5) = ''-5''"
  by (simp_all add: toString_int_def digits.simps digit_char_def)

text \<open>
  C6, as the code has it. \<open>handleGenerateCommitment\<close> tests only that the four fields are
  truthy. When they are, whatever their range, it answers 200 with the first sixteen
  hexadecimal digits of the digest of \<open>year-month-day-secret\<close>, the numbers written as they
  came: nothing is clamped. When a field is absent or falsy (a zero, an empty secret) it
  answers 400, the same under every digest function: nothing is hashed.
\<close>

theorem C6_commitment_checks_presence_only:
  "(y \<noteq> 0 \<and> m \<noteq> 0 \<and> d \<noteq> 0 \<and> secret \<noteq> [] \<longrightarrow>
      handleGenerateCommitment H
        (Some \<lparr>birthYear = Some y, birthMonth = Some m, birthDay = Some d,
               identitySecret = Some secret, identityCommitment = c\<rparr>)
      = (200, CommitmentBody
                (hash16 H (toString_int y @ ''-'' @ toString_int m @ ''-'' @ toString_int d
                           @ ''-'' @ secret))
                ''Identity commitment generated successfully''))
   \<and> (falsy_int (birthYear req) \<or> falsy_int (birthMonth req) \<or> falsy_int (birthDay req)
        \<or> falsy_string (identitySecret req) \<longrightarrow>
      handleGenerateCommitment H (Some req)
        = (400, Error ''Missing required fields: birthYear, birthMonth, birthDay, identitySecret'')
      \<and> handleGenerateCommitment H (Some req) = handleGenerateCommitment H' (Some req))"
proof (intro conjI impI)
  assume "y \<noteq> 0 \<and> m \<noteq> 0 \<and> d \<noteq> 0 \<and> secret \<noteq> []"
  then show "handleGenerateCommitment H
        (Some \<lparr>birthYear = Some y, birthMonth = Some m, birthDay = Some d,
               identitySecret = Some secret, identityCommitment = c\<rparr>)
      = (200, CommitmentBody
                (hash16 H (toString_int y @ ''-'' @ toString_int m @ ''-'' @ toString_int d
                           @ ''-'' @ secret))
                ''Identity commitment generated successfully'')"
    by (simp add: handleGenerateCommitment_present generateIdentityCommitment_def Let_def)
next
  assume f: "falsy_int (birthYear req) \<or> falsy_int (birthMonth req) \<or> falsy_int (birthDay req)
        \<or> falsy_string (identitySecret req)"
  then show "handleGenerateCommitment H (Some req)
        = (400, Error ''Missing required fields: birthYear, birthMonth, birthDay, identitySecret'')"
    by (rule handleGenerateCommitment_missing)
  from f show "handleGenerateCommitment H (Some req) = handleGenerateCommitment H' (Some req)"
    by (simp add: handleGenerateCommitment_missing)
qed

text \<open>
  The theorem at the date 3000-13-32, and at a request whose month is zero.
\<close>

theorem C6_commitment_checks_presence_only_witness:
  "(3000::int) \<noteq> 0 \<and> (13::int) \<noteq> 0 \<and> (32::int) \<noteq> 0 \<and> ''s'' \<noteq> []
   \<and> handleGenerateCommitment checksum_digest
        (Some \<lparr>birthYear = Some 3000, birthMonth = Some 13, birthDay = Some 32,
               identitySecret = Some ''s'', identityCommitment = None\<rparr>)
      = (200, CommitmentBody (hash16 checksum_digest ''3000-13-32-s'')
                ''Identity commitment generated successfully'')
   \<and> falsy_int (birthMonth (example_request\<lparr>birthMonth := Some 0\<rparr>))
   \<and> handleGenerateCommitment checksum_digest (Some (example_request\<lparr>birthMonth := Some 0\<rparr>))
      = (400, Error ''Missing required fields: birthYear, birthMonth, birthDay, identitySecret'')"
proof -
  have h: "(3000::int) \<noteq> 0 \<and> (13::int) \<noteq> 0 \<and> (32::int) \<noteq> 0 \<and> ''s'' \<noteq> []" by simp
  have f: "falsy_int (birthMonth (example_request\<lparr>birthMonth := Some 0\<rparr>))" by simp
  note t = C6_commitment_checks_presence_only [where y = 3000 and m = 13 and d = 32
      and secret = "''s''" and c = None and H = checksum_digest and H' = checksum_digest
      and req = "example_request\<lparr>birthMonth := Some 0\<rparr>"]
  from t h have "handleGenerateCommitment checksum_digest
        (Some \<lparr>birthYear = Some 3000, birthMonth = Some 13, birthDay = Some 32,
               identitySecret = Some ''s'', identityCommitment = None\<rparr>)
      = (200, CommitmentBody
                (hash16 checksum_digest (toString_int 3000 @ ''-'' @ toString_int 13 @ ''-''
                   @ toString_int 32 @ ''-'' @ ''s''))
                ''Identity commitment generated successfully'')"
    by blast
  then have a: "handleGenerateCommitment checksum_digest
        (Some \<lparr>birthYear = Some 3000, birthMonth = Some 13, birthDay = Some 32,
               identitySecret = Some ''s'', identityCommitment = None\<rparr>)
      = (200, CommitmentBody (hash16 checksum_digest ''3000-13-32-s'')
                ''Identity commitment generated successfully'')"
    by (simp add: toString_int_examples)
  from t f have b: "handleGenerateCommitment checksum_digest
        (Some (example_request\<lparr>birthMonth := Some 0\<rparr>))
      = (400, Error ''Missing required fields: birthYear, birthMonth, birthDay, identitySecret'')"
    by blast
  from h f a b show ?thesis by blast
qed

text \<open>
  C6, as the claim words it, fails: month 13, day 32 and year 3000 are out of range, and a
  commitment is computed from them and returned.
\<close>

theorem C6_counterexample:
  "\<forall>H. handleGenerateCommitment H
        (Some \<lparr>birthYear = Some 3000, birthMonth = Some 13, birthDay = Some 32,
               identitySecret = Some ''s'', identityCommitment = None\<rparr>)
      = (200, CommitmentBody (hash16 H ''3000-13-32-s'')
                ''Identity commitment generated successfully'')"
  by (simp add: handleGenerateCommitment_present generateIdentityCommitment_def Let_def
      toString_int_examples)

section \<open>Invalid amounts\<close>

text \<open>
  C7, as the code has it (\<open>simple-gap-server.js\<close>). For an unexpired credential whose
  predicate holds: an amount that is at most zero (negative infinity included), \<open>NaN\<close> or
  absent is refused with \<open>InvalidAmount\<close> and \<open>canBet = false\<close>; positive infinity passes the
  test of the amount and, under any entry of the policy table, is refused with
  \<open>AmountExceedsLimit\<close> and \<open>canBet = false\<close>.
\<close>

theorem C7_invalid_amounts:
  assumes "pid \<noteq> []" and "cache pid = Some c" and "\<not> now > expiresAt c" and "isEligible c"
  shows "(invalid_amount_spec a \<and> a \<noteq> PosInfinity \<longrightarrow>
            reported_reason (handleBettingEligibility cache now
              (Some \<lparr>proofId = Some pid, bettingAmount = Some a, jurisdiction = j\<rparr>))
              = Some InvalidAmount
            \<and> reported_canBet (handleBettingEligibility cache now
              (Some \<lparr>proofId = Some pid, bettingAmount = Some a, jurisdiction = j\<rparr>))
              = Some False)
       \<and> reported_reason (handleBettingEligibility cache now
              (Some \<lparr>proofId = Some pid, bettingAmount = None, jurisdiction = j\<rparr>))
              = Some InvalidAmount
       \<and> reported_canBet (handleBettingEligibility cache now
              (Some \<lparr>proofId = Some pid, bettingAmount = None, jurisdiction = j\<rparr>))
              = Some False
       \<and> (getJurisdictionRules j = Entry p \<longrightarrow>
            reported_reason (handleBettingEligibility cache now
              (Some \<lparr>proofId = Some pid, bettingAmount = Some PosInfinity, jurisdiction = j\<rparr>))
              = Some (AmountExceedsLimit (maxBet p))
            \<and> reported_canBet (handleBettingEligibility cache now
              (Some \<lparr>proofId = Some pid, bettingAmount = Some PosInfinity, jurisdiction = j\<rparr>))
              = Some False)"
proof (intro conjI impI)
  assume "invalid_amount_spec a \<and> a \<noteq> PosInfinity"
  then have inv: "falsy_number (Some a) \<or> amount_le_zero (Some a)"
    by (cases a) auto
  with assms show "reported_reason (handleBettingEligibility cache now
              (Some \<lparr>proofId = Some pid, bettingAmount = Some a, jurisdiction = j\<rparr>))
              = Some InvalidAmount"
    by (simp add: handleBettingEligibility_found checkBettingEligibility_def)
  from inv assms show "reported_canBet (handleBettingEligibility cache now
              (Some \<lparr>proofId = Some pid, bettingAmount = Some a, jurisdiction = j\<rparr>))
              = Some False"
    by (simp add: handleBettingEligibility_found checkBettingEligibility_def)
next
  from assms show "reported_reason (handleBettingEligibility cache now
              (Some \<lparr>proofId = Some pid, bettingAmount = None, jurisdiction = j\<rparr>))
              = Some InvalidAmount"
    by (simp add: handleBettingEligibility_found checkBettingEligibility_def)
  from assms show "reported_canBet (handleBettingEligibility cache now
              (Some \<lparr>proofId = Some pid, bettingAmount = None, jurisdiction = j\<rparr>))
              = Some False"
    by (simp add: handleBettingEligibility_found checkBettingEligibility_def)
next
  assume e: "getJurisdictionRules j = Entry p"
  with assms show "reported_reason (handleBettingEligibility cache now
              (Some \<lparr>proofId = Some pid, bettingAmount = Some PosInfinity, jurisdiction = j\<rparr>))
              = Some (AmountExceedsLimit (maxBet p))"
    by (simp add: handleBettingEligibility_found checkBettingEligibility_def)
  from e assms show "reported_canBet (handleBettingEligibility cache now
              (Some \<lparr>proofId = Some pid, bettingAmount = Some PosInfinity, jurisdiction = j\<rparr>))
              = Some False"
    by (simp add: handleBettingEligibility_found checkBettingEligibility_def)
qed

text \<open>
  The theorem at the amounts \<open>-5\<close> and \<open>Infinity\<close> in the jurisdiction \<open>US\<close>.
\<close>

theorem C7_invalid_amounts_witness:
  "''abcd'' \<noteq> [] \<and> [''abcd'' \<mapsto> example_credential] ''abcd'' = Some example_credential
   \<and> \<not> 2000 > expiresAt example_credential \<and> isEligible example_credential
   \<and> invalid_amount_spec (Finite (- 5)) \<and> Finite (- 5) \<noteq> PosInfinity
   \<and> reported_reason (handleBettingEligibility [''abcd'' \<mapsto> example_credential] 2000
        (Some \<lparr>proofId = Some ''abcd'', bettingAmount = Some (Finite (- 5)),
               jurisdiction = Some ''US''\<rparr>)) = Some InvalidAmount
   \<and> getJurisdictionRules (Some ''US'')
       = Entry \<lparr>maxBet = 10000, minAge = 21, restricted = False\<rparr>
   \<and> reported_reason (handleBettingEligibility [''abcd'' \<mapsto> example_credential] 2000
        (Some \<lparr>proofId = Some ''abcd'', bettingAmount = Some PosInfinity,
               jurisdiction = Some ''US''\<rparr>)) = Some (AmountExceedsLimit 10000)"
proof -
  have h1: "''abcd'' \<noteq> []" by simp
  have h2: "[''abcd'' \<mapsto> example_credential] ''abcd'' = Some example_credential" by simp
  have h3: "\<not> 2000 > expiresAt example_credential" by (simp add: example_credential_def)
  have h4: "isEligible example_credential" by (simp add: example_credential_def)
  have h5: "invalid_amount_spec (Finite (- 5)) \<and> Finite (- 5) \<noteq> PosInfinity" by simp
  have h6: "getJurisdictionRules (Some ''US'')
       = Entry \<lparr>maxBet = 10000, minAge = 21, restricted = False\<rparr>"
    by (rule getJurisdictionRules_table)
  note t = C7_invalid_amounts [where pid = "''abcd''" and c = example_credential
      and cache = "[''abcd'' \<mapsto> example_credential]" and now = 2000
      and a = "Finite (- 5)" and j = "Some ''US''"
      and p = "\<lparr>maxBet = 10000, minAge = 21, restricted = False\<rparr>", OF h1 h2 h3 h4]
  from t h5 have a: "reported_reason (handleBettingEligibility [''abcd'' \<mapsto> example_credential] 2000
        (Some \<lparr>proofId = Some ''abcd'', bettingAmount = Some (Finite (- 5)),
               jurisdiction = Some ''US''\<rparr>)) = Some InvalidAmount"
    by blast
  from t h6 have "reported_reason (handleBettingEligibility [''abcd'' \<mapsto> example_credential] 2000
        (Some \<lparr>proofId = Some ''abcd'', bettingAmount = Some PosInfinity,
               jurisdiction = Some ''US''\<rparr>))
      = Some (AmountExceedsLimit (maxBet \<lparr>maxBet = 10000, minAge = 21, restricted = False\<rparr>))"
    by blast
  then have b: "reported_reason (handleBettingEligibility [''abcd'' \<mapsto> example_credential] 2000
        (Some \<lparr>proofId = Some ''abcd'', bettingAmount = Some PosInfinity,
               jurisdiction = Some ''US''\<rparr>)) = Some (AmountExceedsLimit 10000)"
    by simp
  from h1 h2 h3 h4 h5 h6 a b show ?thesis by blast
qed

text \<open>
  C7, as the claim words it, fails at positive infinity, which is not finite and is
  reported as exceeding the limit, not as an invalid amount.
\<close>

theorem C7_counterexample:
  "invalid_amount_spec PosInfinity
   \<and> \<not> 2000 > expiresAt example_credential \<and> isEligible example_credential
   \<and> handleBettingEligibility [''abcd'' \<mapsto> example_credential] 2000
        (Some \<lparr>proofId = Some ''abcd'', bettingAmount = Some PosInfinity,
               jurisdiction = Some ''US''\<rparr>)
      = (200, BettingBody \<lparr>b_eligible = False, b_canBet = False,
                           b_reason = AmountExceedsLimit 10000,
                           b_maxBet = Some 10000, b_jurisdiction = ''US''\<rparr>)"
  by (simp add: handleBettingEligibility_found [where c = example_credential]
      getJurisdictionRules_table checkBettingEligibility_def example_credential_def)

text \<open>The Express server has no test of the amount: a negative amount is approved.\<close>

lemma checkBettingEligibility_gap_negative:
  "checkBettingEligibility_gap (Some (Finite (- 5))) (getJurisdictionRules (Some ''US''))
     = \<lparr>eligible = True, reason = Approved\<rparr>"
  by (simp add: checkBettingEligibility_gap_def getJurisdictionRules_table)

section \<open>Looking a credential up\<close>

lemma handleVerifyProof_not_410: "fst (handleVerifyProof cache now parsed) \<noteq> 410"
  by (simp add: handleVerifyProof_def Let_def split: option.splits)

lemma handleBettingEligibility_not_410: "fst (handleBettingEligibility cache now parsed) \<noteq> 410"
  by (simp add: handleBettingEligibility_def Let_def split: option.splits)

lemma handleGenerateCommitment_not_410: "fst (handleGenerateCommitment H parsed) \<noteq> 410"
  by (simp add: handleGenerateCommitment_def split: option.splits)

lemma handleGenerateProof_not_410: "fst (fst (handleGenerateProof H clk cache parsed)) \<noteq> 410"
  by (simp add: handleGenerateProof_def cacheProof_def Let_def split: option.splits)

text \<open>
  C5, as the code has it (\<open>simple-gap-server.js\<close>). For a non-empty id there are three
  outcomes. An id that is not in the cache is answered 404 by both handlers. An id whose
  \<open>expiresAt\<close> is before the current time is answered differently: verification answers
  200 with \<open>isValid = false\<close> and the message \<open>Proof has expired\<close> (the stored \<open>isEligible\<close>
  is still sent), and the eligibility check answers 400 with the reason \<open>ProofExpired\<close>,
  \<open>eligible = false\<close> and \<open>canBet = false\<close>, whatever the predicate. An id that is found
  and not expired is answered 200 with \<open>isValid = true\<close> by verification, and by the
  eligibility check according to the predicate, the amount and the jurisdiction. No
  handler answers 410, on any request. The entry cached at the clock reading \<open>t\<close> expires
  at \<open>t\<close> plus 24 hours.
\<close>

theorem C5_lookup_outcomes:
  assumes "pid \<noteq> []"
  shows "(cache pid = None \<longrightarrow>
            handleVerifyProof cache now
              (Some \<lparr>proofId = Some pid, bettingAmount = amt, jurisdiction = j\<rparr>)
              = (404, Error ''Proof not found'')
            \<and> handleBettingEligibility cache now
              (Some \<lparr>proofId = Some pid, bettingAmount = amt, jurisdiction = j\<rparr>)
              = (404, Error ''Age verification proof not found''))
       \<and> (cache pid = Some c \<and> now > expiresAt c \<longrightarrow>
            handleVerifyProof cache now
              (Some \<lparr>proofId = Some pid, bettingAmount = amt, jurisdiction = j\<rparr>)
              = (200, VerifyBody
                   \<lparr>v_isValid = False, v_isEligible = isEligible c, v_age = age c,
                    v_timestamp = timestamp c, v_expiresAt = expiresAt c,
                    v_message = ''Proof has expired''\<rparr>)
            \<and> handleBettingEligibility cache now
              (Some \<lparr>proofId = Some pid, bettingAmount = amt, jurisdiction = j\<rparr>)
              = (400, Refused ProofExpired))
       \<and> (cache pid = Some c \<and> now \<le> expiresAt c \<longrightarrow>
            handleVerifyProof cache now
              (Some \<lparr>proofId = Some pid, bettingAmount = amt, jurisdiction = j\<rparr>)
              = (200, VerifyBody
                   \<lparr>v_isValid = True, v_isEligible = isEligible c, v_age = age c,
                    v_timestamp = timestamp c, v_expiresAt = expiresAt c,
                    v_message = (if isEligible c
                      then ''Valid proof - user is eligible for sports betting''
                      else ''Invalid proof or user not eligible'')\<rparr>)
            \<and> handleBettingEligibility cache now
              (Some \<lparr>proofId = Some pid, bettingAmount = amt, jurisdiction = j\<rparr>)
              = (if isEligible c
                 then (200, BettingBody
                   \<lparr>b_eligible = eligible (checkBettingEligibility amt (getJurisdictionRules j)),
                    b_canBet = eligible (checkBettingEligibility amt (getJurisdictionRules j)),
                    b_reason = reason (checkBettingEligibility amt (getJurisdictionRules j)),
                    b_maxBet = rules_maxBet (getJurisdictionRules j),
                    b_jurisdiction = jurisdiction_or_default j\<rparr>)
                 else (200, Refused PredicateNotMet)))
       \<and> fst (handleVerifyProof cache' now' parsed) \<noteq> 410
       \<and> fst (handleBettingEligibility cache' now' parsed) \<noteq> 410
       \<and> fst (handleGenerateCommitment H parsed') \<noteq> 410
       \<and> fst (fst (handleGenerateProof H clk cache' parsed')) \<noteq> 410
       \<and> snd (cacheProof H cache zk elig stamp t) (fst (cacheProof H cache zk elig stamp t))
           = Some \<lparr>cached = zk, isEligible = elig,
                   age = (if elig then ''18+'' else ''under_18''),
                   timestamp = stamp, expiresAt = t + 86400000\<rparr>"
proof (intro conjI impI)
  assume n: "cache pid = None"
  with assms show "handleVerifyProof cache now
              (Some \<lparr>proofId = Some pid, bettingAmount = amt, jurisdiction = j\<rparr>)
              = (404, Error ''Proof not found'')"
    by (simp add: handleVerifyProof_def)
  from n assms show "handleBettingEligibility cache now
              (Some \<lparr>proofId = Some pid, bettingAmount = amt, jurisdiction = j\<rparr>)
              = (404, Error ''Age verification proof not found'')"
    by (simp add: handleBettingEligibility_def)
next
  assume e: "cache pid = Some c \<and> now > expiresAt c"
  with assms show "handleVerifyProof cache now
              (Some \<lparr>proofId = Some pid, bettingAmount = amt, jurisdiction = j\<rparr>)
              = (200, VerifyBody
                   \<lparr>v_isValid = False, v_isEligible = isEligible c, v_age = age c,
                    v_timestamp = timestamp c, v_expiresAt = expiresAt c,
                    v_message = ''Proof has expired''\<rparr>)"
    by (simp add: handleVerifyProof_found)
  from e assms show "handleBettingEligibility cache now
              (Some \<lparr>proofId = Some pid, bettingAmount = amt, jurisdiction = j\<rparr>)
              = (400, Refused ProofExpired)"
    by (simp add: handleBettingEligibility_found)
next
  assume u: "cache pid = Some c \<and> now \<le> expiresAt c"
  with assms show "handleVerifyProof cache now
              (Some \<lparr>proofId = Some pid, bettingAmount = amt, jurisdiction = j\<rparr>)
              = (200, VerifyBody
                   \<lparr>v_isValid = True, v_isEligible = isEligible c, v_age = age c,
                    v_timestamp = timestamp c, v_expiresAt = expiresAt c,
                    v_message = (if isEligible c
                      then ''Valid proof - user is eligible for sports betting''
                      else ''Invalid proof or user not eligible'')\<rparr>)"
    by (simp add: handleVerifyProof_found)
  from u assms show "handleBettingEligibility cache now
              (Some \<lparr>proofId = Some pid, bettingAmount = amt, jurisdiction = j\<rparr>)
              = (if isEligible c
                 then (200, BettingBody
                   \<lparr>b_eligible = eligible (checkBettingEligibility amt (getJurisdictionRules j)),
                    b_canBet = eligible (checkBettingEligibility amt (getJurisdictionRules j)),
                    b_reason = reason (checkBettingEligibility amt (getJurisdictionRules j)),
                    b_maxBet = rules_maxBet (getJurisdictionRules j),
                    b_jurisdiction = jurisdiction_or_default j\<rparr>)
                 else (200, Refused PredicateNotMet))"
    by (simp add: handleBettingEligibility_found)
next
  show "fst (handleVerifyProof cache' now' parsed) \<noteq> 410"
    by (rule handleVerifyProof_not_410)
  show "fst (handleBettingEligibility cache' now' parsed) \<noteq> 410"
    by (rule handleBettingEligibility_not_410)
  show "fst (handleGenerateCommitment H parsed') \<noteq> 410"
    by (rule handleGenerateCommitment_not_410)
  show "fst (fst (handleGenerateProof H clk cache' parsed')) \<noteq> 410"
    by (rule handleGenerateProof_not_410)
  show "snd (cacheProof H cache zk elig stamp t) (fst (cacheProof H cache zk elig stamp t))
           = Some \<lparr>cached = zk, isEligible = elig,
                   age = (if elig then ''18+'' else ''under_18''),
                   timestamp = stamp, expiresAt = t + 86400000\<rparr>"
    by (simp add: cacheProof_def Let_def)
qed

text \<open>
  The theorem at an id that was never issued, at an expired credential and at the same
  credential before it expires.
\<close>

theorem C5_lookup_outcomes_witness:
  "''abcd'' \<noteq> [] \<and> ''ffff'' \<noteq> []
   \<and> [''abcd'' \<mapsto> example_credential] ''ffff'' = None
   \<and> handleVerifyProof [''abcd'' \<mapsto> example_credential] 90000000
        (Some \<lparr>proofId = Some ''ffff'', bettingAmount = None, jurisdiction = None\<rparr>)
      = (404, Error ''Proof not found'')
   \<and> [''abcd'' \<mapsto> example_credential] ''abcd'' = Some example_credential
   \<and> 90000000 > expiresAt example_credential
   \<and> handleBettingEligibility [''abcd'' \<mapsto> example_credential] 90000000
        (Some \<lparr>proofId = Some ''abcd'', bettingAmount = None, jurisdiction = None\<rparr>)
      = (400, Refused ProofExpired)
   \<and> 2000 \<le> expiresAt example_credential
   \<and> handleVerifyProof [''abcd'' \<mapsto> example_credential] 2000
        (Some \<lparr>proofId = Some ''abcd'', bettingAmount = None, jurisdiction = None\<rparr>)
      = (200, VerifyBody
           \<lparr>v_isValid = True, v_isEligible = True, v_age = ''18+'', v_timestamp = 1001,
            v_expiresAt = 86401002,
            v_message = ''Valid proof - user is eligible for sports betting''\<rparr>)"
proof -
  have h1: "''abcd'' \<noteq> []" and h1': "''ffff'' \<noteq> []" by simp_all
  have h2: "[''abcd'' \<mapsto> example_credential] ''ffff'' = None" by simp
  have h3: "[''abcd'' \<mapsto> example_credential] ''abcd'' = Some example_credential
            \<and> 90000000 > expiresAt example_credential"
    by (simp add: example_credential_def)
  have h4: "[''abcd'' \<mapsto> example_credential] ''abcd'' = Some example_credential
            \<and> 2000 \<le> expiresAt example_credential"
    by (simp add: example_credential_def)
  from C5_lookup_outcomes [where pid = "''ffff''" and cache = "[''abcd'' \<mapsto> example_credential]"
      and now = 90000000 and amt = None and j = None, OF h1'] h2
  have a: "handleVerifyProof [''abcd'' \<mapsto> example_credential] 90000000
        (Some \<lparr>proofId = Some ''ffff'', bettingAmount = None, jurisdiction = None\<rparr>)
      = (404, Error ''Proof not found'')"
    by blast
  from C5_lookup_outcomes [where pid = "''abcd''" and cache = "[''abcd'' \<mapsto> example_credential]"
      and now = 90000000 and amt = None and j = None and c = example_credential, OF h1] h3
  have b: "handleBettingEligibility [''abcd'' \<mapsto> example_credential] 90000000
        (Some \<lparr>proofId = Some ''abcd'', bettingAmount = None, jurisdiction = None\<rparr>)
      = (400, Refused ProofExpired)"
    by blast
  from C5_lookup_outcomes [where pid = "''abcd''" and cache = "[''abcd'' \<mapsto> example_credential]"
      and now = 2000 and amt = None and j = None and c = example_credential, OF h1] h4
  have "handleVerifyProof [''abcd'' \<mapsto> example_credential] 2000
        (Some \<lparr>proofId = Some ''abcd'', bettingAmount = None, jurisdiction = None\<rparr>)
      = (200, VerifyBody
           \<lparr>v_isValid = True, v_isEligible = isEligible example_credential,
            v_age = age example_credential,
            v_timestamp = timestamp example_credential,
            v_expiresAt = expiresAt example_credential,
            v_message = (if isEligible example_credential
              then ''Valid proof - user is eligible for sports betting''
              else ''Invalid proof or user not eligible'')\<rparr>)"
    by blast
  then have c: "handleVerifyProof [''abcd'' \<mapsto> example_credential] 2000
        (Some \<lparr>proofId = Some ''abcd'', bettingAmount = None, jurisdiction = None\<rparr>)
      = (200, VerifyBody
           \<lparr>v_isValid = True, v_isEligible = True, v_age = ''18+'', v_timestamp = 1001,
            v_expiresAt = 86401002,
            v_message = ''Valid proof - user is eligible for sports betting''\<rparr>)"
    by (simp add: example_credential_def)
  from h1 h1' h2 h3 h4 a b c show ?thesis by blast
qed

text \<open>
  C5, as the claim words it, has the expired credential answered 410. No handler sends
  410: the expired credential is answered 200 by verification and 400 by the eligibility
  check.
\<close>

theorem C5_counterexample:
  "90000000 > expiresAt example_credential
   \<and> handleVerifyProof [''abcd'' \<mapsto> example_credential] 90000000
        (Some \<lparr>proofId = Some ''abcd'', bettingAmount = None, jurisdiction = None\<rparr>)
      = (200, VerifyBody
           \<lparr>v_isValid = False, v_isEligible = True, v_age = ''18+'', v_timestamp = 1001,
            v_expiresAt = 86401002, v_message = ''Proof has expired''\<rparr>)
   \<and> handleBettingEligibility [''abcd'' \<mapsto> example_credential] 90000000
        (Some \<lparr>proofId = Some ''abcd'', bettingAmount = None, jurisdiction = None\<rparr>)
      = (400, Refused ProofExpired)
   \<and> (200::nat) \<noteq> 410 \<and> (400::nat) \<noteq> 410"
  by (simp add: handleVerifyProof_found [where c = example_credential]
      handleBettingEligibility_found [where c = example_credential] example_credential_def)

section \<open>Verification in src/gap-server.js\<close>

text \<open>
  C3, as the code has it. \<open>verifyZKProof\<close> takes no commitment and returns true for every
  proof and every list of public signals, so \<open>POST /api/verify-proof\<close> reports
  \<open>isValid = true\<close> for every cached proof.
\<close>

theorem C3_verify_never_rejects:
  "verifyZKProof zk signals = True
   \<and> verify zk signals commitment = True
   \<and> (pid \<noteq> [] \<and> cache pid = Some c \<longrightarrow>
        post_verify_proof cache \<lparr>proofId = Some pid, bettingAmount = amt, jurisdiction = j\<rparr>
        = (200, VerifyBody_gap
             \<lparr>gv_isValid = True, gv_isEligible = g_isEligible c,
              gv_timestamp = g_timestamp c,
              gv_message = (if g_isEligible c
                 then ''Valid proof - user is eligible for sports betting''
                 else ''Invalid proof or user not eligible'')\<rparr>))"
  by (simp add: verifyZKProof_def verify_def post_verify_proof_def Let_def)

text \<open>The theorem at a cache holding one credential.\<close>

theorem C3_verify_never_rejects_witness:
  "''abcd'' \<noteq> [] \<and> [''abcd'' \<mapsto> example_credential_gap] ''abcd'' = Some example_credential_gap
   \<and> post_verify_proof [''abcd'' \<mapsto> example_credential_gap]
        \<lparr>proofId = Some ''abcd'', bettingAmount = None, jurisdiction = None\<rparr>
      = (200, VerifyBody_gap
           \<lparr>gv_isValid = True, gv_isEligible = True, gv_timestamp = 1001,
            gv_message = ''Valid proof - user is eligible for sports betting''\<rparr>)"
proof -
  have h: "''abcd'' \<noteq> [] \<and> [''abcd'' \<mapsto> example_credential_gap] ''abcd'' = Some example_credential_gap"
    by simp
  from C3_verify_never_rejects [where pid = "''abcd''" and c = example_credential_gap
      and cache = "[''abcd'' \<mapsto> example_credential_gap]" and amt = None and j = None] h
  have "post_verify_proof [''abcd'' \<mapsto> example_credential_gap]
        \<lparr>proofId = Some ''abcd'', bettingAmount = None, jurisdiction = None\<rparr>
        = (200, VerifyBody_gap
             \<lparr>gv_isValid = True, gv_isEligible = g_isEligible example_credential_gap,
              gv_timestamp = g_timestamp example_credential_gap,
              gv_message = (if g_isEligible example_credential_gap
                 then ''Valid proof - user is eligible for sports betting''
                 else ''Invalid proof or user not eligible'')\<rparr>)"
    by blast
  then have "post_verify_proof [''abcd'' \<mapsto> example_credential_gap]
        \<lparr>proofId = Some ''abcd'', bettingAmount = None, jurisdiction = None\<rparr>
      = (200, VerifyBody_gap
           \<lparr>gv_isValid = True, gv_isEligible = True, gv_timestamp = 1001,
            gv_message = ''Valid proof - user is eligible for sports betting''\<rparr>)"
    by (simp add: example_credential_gap_def)
  with h show ?thesis by blast
qed

text \<open>
  C3, as the claim words it, fails: a proof produced against the commitment
  \<open>0123456789abcdef\<close> verifies against the commitment \<open>ffffffffffffffff\<close>.
\<close>

theorem C3_counterexample:
  "\<forall>H. ''ffffffffffffffff'' \<noteq> identity_commitment example_input_gap
     \<and> verify (generateZKProof_gap H example_input_gap)
          (publicSignals (generateZKProof_gap H example_input_gap)) ''ffffffffffffffff'' = True"
  by (simp add: verify_def verifyZKProof_def example_input_gap_def)

section \<open>Credential identifiers\<close>

text \<open>
  C8. The id under which a proof is cached is \<open>generateProofId\<close> of the proof alone: it is
  the same whatever the cache, the eligibility flag and the clock readings are. Caching
  the same proof a second time returns the same id and leaves the set of cached ids as it
  was.
\<close>

theorem C8_same_proof_same_id:
  "fst (cacheProof H cache1 zk elig1 stamp1 now1) = generateProofId H zk
   \<and> fst (cacheProof H cache2 zk elig2 stamp2 now2) = fst (cacheProof H cache1 zk elig1 stamp1 now1)
   \<and> fst (cacheProof H (snd (cacheProof H cache1 zk elig1 stamp1 now1)) zk elig2 stamp2 now2)
       = fst (cacheProof H cache1 zk elig1 stamp1 now1)
   \<and> dom (snd (cacheProof H (snd (cacheProof H cache1 zk elig1 stamp1 now1)) zk elig2 stamp2 now2))
       = dom (snd (cacheProof H cache1 zk elig1 stamp1 now1))"
  by (simp add: cacheProof_def Let_def)

section \<open>The clock in the proof\<close>











end
